theory Spec2Isabelle
  imports Main
begin

section \<open>Data model of the job queue (lib/jqueue.py)\<close>

text \<open>
  Modelled from the spec: the module \<^verbatim>\<open>ganeti.constants\<close> is not among the sources.
  The spec's data model names one set of seven statuses, used for opcodes and, through
  \<^verbatim>\<open>CalcStatus\<close>, for jobs; its terminal set is CANCELED, SUCCESS, ERROR. The source
  refers to them as \<^verbatim>\<open>OP_STATUS_*\<close> and \<^verbatim>\<open>JOB_STATUS_*\<close>; both families name
  the same values here (they are the same Python strings).
\<close>

datatype status = QUEUED | WAITING | RUNNING | CANCELING | CANCELED | SUCCESS | ERROR

abbreviation OP_STATUS_QUEUED :: status where "OP_STATUS_QUEUED \<equiv> QUEUED"
abbreviation OP_STATUS_WAITING :: status where "OP_STATUS_WAITING \<equiv> WAITING"
abbreviation OP_STATUS_RUNNING :: status where "OP_STATUS_RUNNING \<equiv> RUNNING"
abbreviation OP_STATUS_CANCELING :: status where "OP_STATUS_CANCELING \<equiv> CANCELING"
abbreviation OP_STATUS_CANCELED :: status where "OP_STATUS_CANCELED \<equiv> CANCELED"
abbreviation OP_STATUS_SUCCESS :: status where "OP_STATUS_SUCCESS \<equiv> SUCCESS"
abbreviation OP_STATUS_ERROR :: status where "OP_STATUS_ERROR \<equiv> ERROR"

abbreviation JOB_STATUS_QUEUED :: status where "JOB_STATUS_QUEUED \<equiv> QUEUED"
abbreviation JOB_STATUS_WAITING :: status where "JOB_STATUS_WAITING \<equiv> WAITING"
abbreviation JOB_STATUS_RUNNING :: status where "JOB_STATUS_RUNNING \<equiv> RUNNING"
abbreviation JOB_STATUS_CANCELING :: status where "JOB_STATUS_CANCELING \<equiv> CANCELING"
abbreviation JOB_STATUS_CANCELED :: status where "JOB_STATUS_CANCELED \<equiv> CANCELED"
abbreviation JOB_STATUS_SUCCESS :: status where "JOB_STATUS_SUCCESS \<equiv> SUCCESS"
abbreviation JOB_STATUS_ERROR :: status where "JOB_STATUS_ERROR \<equiv> ERROR"

definition OPS_FINALIZED :: "status set" where
  "OPS_FINALIZED = {OP_STATUS_CANCELED, OP_STATUS_SUCCESS, OP_STATUS_ERROR}"

definition JOBS_FINALIZED :: "status set" where
  "JOBS_FINALIZED = {JOB_STATUS_CANCELED, JOB_STATUS_SUCCESS, JOB_STATUS_ERROR}"

text \<open>
  The numeric constants of \<^verbatim>\<open>ganeti.constants\<close> are parameters of the model: no
  theorem below depends on their values.
\<close>

record constants =
  OP_PRIO_DEFAULT :: int
  OP_PRIO_HIGHEST :: int
  OP_PRIO_LOWEST :: int
  OP_PRIO_SUBMIT_VALID :: "int list"
  JOB_QUEUE_SIZE_HARD_LIMIT :: int

text \<open>
  Values that travel through the serializer (opcode results, log messages, opcode
  parameters) are JSON values.
\<close>

datatype json =
    JNull
  | JBool bool
  | JInt int
  | JStr string
  | JList "json list"
  | JDict "(string \<times> json) list"

text \<open>A timestamp is the pair (seconds, microseconds) of \<^verbatim>\<open>utils.SplitTime\<close>.\<close>

type_synonym timestamp = "int \<times> int"

text \<open>A log entry is the tuple (log_serial, timestamp, level, message).\<close>

type_synonym log_entry = "int \<times> timestamp \<times> string \<times> json"

text \<open>
  The opcode an \<^verbatim>\<open>_QueuedOpCode\<close> wraps. Of \<^verbatim>\<open>opcodes.OpCode\<close> (not among the
  sources) the queue reads the attributes \<^verbatim>\<open>priority\<close> and \<^verbatim>\<open>depends\<close> through
  \<^verbatim>\<open>getattr\<close> with a default, so each may be absent (\<open>None\<close>), and it extends the
  \<^verbatim>\<open>reason\<close> trail; everything else is the opaque \<open>oc_params\<close>.
\<close>

record opcode =
  OP_ID :: string
  oc_priority :: "int option"
  oc_depends :: "(int \<times> status list) list option"
  oc_reason :: "(string \<times> string \<times> int list \<times> int) list option"
  oc_params :: json

text \<open>Class \<^verbatim>\<open>_QueuedOpCode\<close>: the fields of its \<^verbatim>\<open>__slots__\<close>.\<close>

record queued_opcode =
  op_input :: opcode
  op_status :: status
  op_result :: json
  op_log :: "log_entry list"
  op_priority :: int
  op_start_timestamp :: "timestamp option"
  op_exec_timestamp :: "timestamp option"
  op_end_timestamp :: "timestamp option"

text \<open>
  A timeout strategy (\<^verbatim>\<open>mcpu.LockAttemptTimeoutStrategy\<close>, not among the sources).
  Modelled from the spec: a factory returns an iterator of timeouts; \<^verbatim>\<open>NextAttempt\<close>
  yields the next one, and \<open>None\<close> once the iterator is exhausted (the next acquire
  would block without bound). The iterator is the list of the timeouts still to come.
\<close>

type_synonym timeout = nat

type_synonym timeout_strategy = "timeout list"

fun NextAttempt :: "timeout_strategy \<Rightarrow> timeout option \<times> timeout_strategy" where
  "NextAttempt [] = (None, [])"
| "NextAttempt (t # ts) = (Some t, ts)"

text \<open>
  Class \<^verbatim>\<open>_TimeoutStrategyWrapper\<close>: \<open>ts_fn\<close> is the state behind the bound method
  \<^verbatim>\<open>self._fn\<close>, \<open>ts_next\<close> is \<^verbatim>\<open>self._next\<close>.
\<close>

record timeout_strategy_wrapper =
  ts_fn :: timeout_strategy
  ts_next :: "timeout option"

text \<open>
  Class \<^verbatim>\<open>_OpExecContext\<close>. Its \<^verbatim>\<open>op\<close> is the object \<^verbatim>\<open>job.ops[index]\<close>; the
  model keeps the index and passes the opcode explicitly where a method touches it.
\<close>

record op_exec_context =
  ctx_index :: nat
  ctx_jobdeps :: "(int \<times> status list) list option"
  ctx_timeout_strategy_factory :: timeout_strategy
  ctx_timeout_strategy :: timeout_strategy_wrapper

text \<open>
  Class \<^verbatim>\<open>_QueuedJob\<close>. \<open>ops_iter\<close> is the position of the enumerate iterator
  (\<open>None\<close> before it is created), \<open>cur_opctx\<close> the stashed execution context.
  The parent queue and the processor lock are not part of the value.
\<close>

record queued_job =
  job_id :: int
  ops :: "queued_opcode list"
  log_serial :: int
  ops_iter :: "nat option"
  cur_opctx :: "op_exec_context option"
  received_timestamp :: "timestamp option"
  start_timestamp :: "timestamp option"
  end_timestamp :: "timestamp option"
  writable :: bool
  archived :: bool

section \<open>Derived status and priority\<close>

text \<open>
  The loop of \<^verbatim>\<open>_QueuedJob.CalcStatus\<close>, with its two variables \<^verbatim>\<open>status\<close> and
  \<^verbatim>\<open>all_success\<close>: \<^verbatim>\<open>continue\<close> on SUCCESS, \<^verbatim>\<open>break\<close> on CANCELING, ERROR and
  CANCELED. The last of these branches assigns \<^verbatim>\<open>constants.OP_STATUS_CANCELED\<close>.
\<close>

fun CalcStatus_loop :: "queued_opcode list \<Rightarrow> status \<Rightarrow> bool \<Rightarrow> status \<times> bool" where
  "CalcStatus_loop [] st all_success = (st, all_success)"
| "CalcStatus_loop (opc # rest) st all_success =
     (if op_status opc = OP_STATUS_SUCCESS then CalcStatus_loop rest st all_success
      else if op_status opc = OP_STATUS_QUEUED then CalcStatus_loop rest st False
      else if op_status opc = OP_STATUS_WAITING then CalcStatus_loop rest JOB_STATUS_WAITING False
      else if op_status opc = OP_STATUS_RUNNING then CalcStatus_loop rest JOB_STATUS_RUNNING False
      else if op_status opc = OP_STATUS_CANCELING then (JOB_STATUS_CANCELING, False)
      else if op_status opc = OP_STATUS_ERROR then (JOB_STATUS_ERROR, False)
      else if op_status opc = OP_STATUS_CANCELED then (OP_STATUS_CANCELED, False)
      else CalcStatus_loop rest st False)"

definition CalcStatus :: "queued_job \<Rightarrow> status" where
  "CalcStatus job =
     (case CalcStatus_loop (ops job) JOB_STATUS_QUEUED True of
        (st, all_success) \<Rightarrow> if all_success then JOB_STATUS_SUCCESS else st)"

text \<open>The two status tests the specification of \<^verbatim>\<open>CalcStatus\<close> speaks of.\<close>

definition stops_scan :: "queued_opcode \<Rightarrow> bool" where
  "stops_scan opc \<longleftrightarrow> op_status opc \<in> {CANCELING, ERROR, CANCELED}"

definition waiting_or_running :: "queued_opcode \<Rightarrow> bool" where
  "waiting_or_running opc \<longleftrightarrow> op_status opc \<in> {WAITING, RUNNING}"

text \<open>
  \<^verbatim>\<open>_QueuedJob.CalcPriority\<close>: the list comprehension over the opcodes that are not
  finalized, then Python's \<^verbatim>\<open>min\<close> (called on a non-empty list only).
\<close>

definition CalcPriority :: "constants \<Rightarrow> queued_job \<Rightarrow> int" where
  "CalcPriority c job =
     (let priorities = map op_priority (filter (\<lambda>opc. op_status opc \<notin> OPS_FINALIZED) (ops job))
      in if priorities = [] then OP_PRIO_DEFAULT c else min_list priorities)"

section \<open>Errors and messages\<close>

text \<open>
  A message is a Python format string with the values substituted into it; the
  formatting itself is not modelled, and the apostrophes of the source's texts are
  left out. A substituted value may be an exception, which stands for its own message
  (\<open>AErr\<close>).
\<close>

datatype fmt_arg =
    AInt int
  | AStr string
  | AStatus status
  | AStatusList "status list"
  | AIntList "int list"
  | ADeps "(int \<times> status list) list option"
  | AErr message
and message = Fmt string "fmt_arg list"

text \<open>The exceptions the queue raises; a failed \<^verbatim>\<open>assert\<close> is an AssertionError.\<close>

datatype error =
    GenericError message
  | JobQueueDrainError message
  | JobQueueError message
  | JobQueueFull
  | JobLost message
  | ProgrammerError message
  | AssertionError string
  | AttributeError string

section \<open>Changing the opcodes of a job\<close>

text \<open>
  \<^verbatim>\<open>_QueuedJob.MarkUnfinishedOps\<close>. The loop mutates the opcodes in place, so when its
  assertion fails the opcodes already marked stay marked: the loop returns the list as
  it is at that point, with the error.
\<close>

fun MarkUnfinishedOps_loop ::
  "status \<Rightarrow> json \<Rightarrow> bool \<Rightarrow> queued_opcode list \<Rightarrow> error option \<times> queued_opcode list" where
  "MarkUnfinishedOps_loop st res not_marked [] = (None, [])"
| "MarkUnfinishedOps_loop st res not_marked (opc # rest) =
     (if op_status opc \<in> OPS_FINALIZED then
        (if not_marked then
           (case MarkUnfinishedOps_loop st res not_marked rest of
              (e, rest') \<Rightarrow> (e, opc # rest'))
         else (Some (AssertionError ''Finalized opcodes found after non-finalized ones''),
               opc # rest))
      else
        (case MarkUnfinishedOps_loop st res False rest of
           (e, rest') \<Rightarrow> (e, opc\<lparr>op_status := st, op_result := res\<rparr> # rest')))"

definition MarkUnfinishedOps :: "status \<Rightarrow> json \<Rightarrow> queued_job \<Rightarrow> error option \<times> queued_job" where
  "MarkUnfinishedOps st res job =
     (case MarkUnfinishedOps_loop st res True (ops job) of
        (e, ops') \<Rightarrow> (e, job\<lparr>ops := ops'\<rparr>))"

text \<open>\<^verbatim>\<open>_QueuedJob.Finalize\<close>; \<open>now\<close> is the value of \<^verbatim>\<open>TimeStampNow()\<close>.\<close>

definition Finalize :: "timestamp \<Rightarrow> queued_job \<Rightarrow> queued_job" where
  "Finalize now job = job\<lparr>end_timestamp := Some now\<rparr>"

text \<open>
  \<^verbatim>\<open>_QueuedJob.Cancel\<close>. The result is the raised error or the returned pair, together
  with the job as the call leaves it.
\<close>

definition Cancel :: "timestamp \<Rightarrow> queued_job \<Rightarrow> (error + bool \<times> message) \<times> queued_job" where
  "Cancel now job =
     (let status = CalcStatus job in
      if status = JOB_STATUS_QUEUED then
        (case MarkUnfinishedOps OP_STATUS_CANCELED (JStr ''Job canceled by request'') job of
           (Some e, job') \<Rightarrow> (Inl e, job')
         | (None, job') \<Rightarrow>
             (Inr (True, Fmt ''Job %s canceled'' [AInt (job_id job)]), Finalize now job'))
      else if status = JOB_STATUS_WAITING then
        (case MarkUnfinishedOps OP_STATUS_CANCELING JNull job of
           (Some e, job') \<Rightarrow> (Inl e, job')
         | (None, job') \<Rightarrow>
             (Inr (True, Fmt ''Job %s will be canceled'' [AInt (job_id job)]), job'))
      else
        (Inr (False, Fmt ''Job %s is no longer waiting in the queue'' [AInt (job_id job)]), job))"

section \<open>Lock timeouts and priority increase\<close>

text \<open>\<^verbatim>\<open>_TimeoutStrategyWrapper._Advance\<close>, \<^verbatim>\<open>Peek\<close> and \<^verbatim>\<open>Next\<close>.\<close>

definition Advance :: "timeout_strategy_wrapper \<Rightarrow> timeout_strategy_wrapper" where
  "Advance w =
     (if ts_next w = None then
        (case NextAttempt (ts_fn w) of (t, fn') \<Rightarrow> w\<lparr>ts_fn := fn', ts_next := t\<rparr>)
      else w)"

definition Peek :: "timeout_strategy_wrapper \<Rightarrow> timeout option \<times> timeout_strategy_wrapper" where
  "Peek w = (let w' = Advance w in (ts_next w', w'))"

definition Next :: "timeout_strategy_wrapper \<Rightarrow> timeout option \<times> timeout_strategy_wrapper" where
  "Next w = (let w' = Advance w in (ts_next w', w'\<lparr>ts_next := None\<rparr>))"

text \<open>\<^verbatim>\<open>_OpExecContext._ResetTimeoutStrategy\<close>: a new wrapper around a new strategy.\<close>

definition ResetTimeoutStrategy :: "op_exec_context \<Rightarrow> op_exec_context" where
  "ResetTimeoutStrategy opctx =
     opctx\<lparr>ctx_timeout_strategy :=
       \<lparr>ts_fn = ctx_timeout_strategy_factory opctx, ts_next = None\<rparr>\<rparr>"

text \<open>
  \<^verbatim>\<open>_OpExecContext.CheckPriorityIncrease\<close>, on the context and its opcode. Python's
  \<^verbatim>\<open>and\<close> evaluates \<^verbatim>\<open>Peek()\<close> first, so the wrapper advances in either case.
\<close>

definition CheckPriorityIncrease ::
  "constants \<Rightarrow> op_exec_context \<Rightarrow> queued_opcode \<Rightarrow> bool \<times> op_exec_context \<times> queued_opcode" where
  "CheckPriorityIncrease c opctx opc =
     (case Peek (ctx_timeout_strategy opctx) of
        (t, w') \<Rightarrow>
          (let opctx' = opctx\<lparr>ctx_timeout_strategy := w'\<rparr> in
           if t = None \<and> op_priority opc > OP_PRIO_HIGHEST c then
             (True, ResetTimeoutStrategy opctx', opc\<lparr>op_priority := op_priority opc - 1\<rparr>)
           else (False, opctx', opc)))"

text \<open>\<^verbatim>\<open>_OpExecContext.GetNextLockTimeout\<close>.\<close>

definition GetNextLockTimeout :: "op_exec_context \<Rightarrow> timeout option \<times> op_exec_context" where
  "GetNextLockTimeout opctx =
     (case Next (ctx_timeout_strategy opctx) of
        (t, w') \<Rightarrow> (t, opctx\<lparr>ctx_timeout_strategy := w'\<rparr>))"

section \<open>Serialized form\<close>

text \<open>
  The modules \<^verbatim>\<open>opcodes\<close>, \<^verbatim>\<open>opcodes_base\<close> and \<^verbatim>\<open>ht\<close> are not among the
  sources; the functions of theirs that the queue calls are parameters of the model:
  \<^verbatim>\<open>OpCode.LoadOpCode\<close>, \<^verbatim>\<open>OpCode.__getstate__\<close>, \<^verbatim>\<open>NameToReasonSrc\<close> (applied
  to the opcode's class, which \<open>OP_ID\<close> stands for), the type checks
  \<^verbatim>\<open>TNoRelativeJobDependencies\<close> and \<^verbatim>\<open>TJobId\<close>, and \<^verbatim>\<open>utils.EpochNano\<close>.
\<close>

record externals =
  LoadOpCode :: "json \<Rightarrow> error + opcode"
  getstate :: "opcode \<Rightarrow> json"
  NameToReasonSrc :: "string \<Rightarrow> string"
  TNoRelativeJobDependencies :: "(int \<times> status list) list option \<Rightarrow> bool"
  TJobId :: "int \<Rightarrow> bool"
  EpochNano :: "nat \<Rightarrow> int"

text \<open>
  The dictionary \<^verbatim>\<open>_QueuedOpCode.Serialize\<close> returns and \<^verbatim>\<open>Restore\<close> reads. The
  keys read with \<^verbatim>\<open>state[...]\<close> are always there; a key read with
  \<^verbatim>\<open>state.get(..., default)\<close> may be absent (\<open>None\<close>) or present (\<open>Some v\<close>, where
  a timestamp \<open>v\<close> may be null).
\<close>

record opcode_state =
  st_input :: json
  st_status :: status
  st_result :: json
  st_log :: "log_entry list"
  st_start_timestamp :: "timestamp option option"
  st_exec_timestamp :: "timestamp option option"
  st_end_timestamp :: "timestamp option option"
  st_priority :: "int option"

text \<open>
  The dictionary of a job; \<open>js_other\<close> holds the keys neither \<^verbatim>\<open>Restore\<close> nor
  \<^verbatim>\<open>Serialize\<close> knows (a stored \<^verbatim>\<open>log_serial\<close>, for one).
\<close>

record job_state =
  js_id :: int
  js_ops :: "opcode_state list"
  js_received_timestamp :: "timestamp option option"
  js_start_timestamp :: "timestamp option option"
  js_end_timestamp :: "timestamp option option"
  js_other :: "(string \<times> json) list"

text \<open>Python's \<^verbatim>\<open>state.get(key, None)\<close> on a timestamp.\<close>

definition get_or_None :: "'a option option \<Rightarrow> 'a option" where
  "get_or_None v = (case v of None \<Rightarrow> None | Some x \<Rightarrow> x)"

text \<open>\<^verbatim>\<open>_QueuedOpCode.__init__\<close>, \<^verbatim>\<open>Restore\<close> and \<^verbatim>\<open>Serialize\<close>.\<close>

definition QueuedOpCode_init :: "constants \<Rightarrow> opcode \<Rightarrow> queued_opcode" where
  "QueuedOpCode_init c opc =
     \<lparr>op_input = opc, op_status = OP_STATUS_QUEUED, op_result = JNull, op_log = [],
      op_priority = (case oc_priority opc of None \<Rightarrow> OP_PRIO_DEFAULT c | Some p \<Rightarrow> p),
      op_start_timestamp = None, op_exec_timestamp = None, op_end_timestamp = None\<rparr>"

definition QueuedOpCode_Restore :: "externals \<Rightarrow> constants \<Rightarrow> opcode_state \<Rightarrow> error + queued_opcode" where
  "QueuedOpCode_Restore X c state =
     (case LoadOpCode X (st_input state) of
        Inl e \<Rightarrow> Inl e
      | Inr inp \<Rightarrow>
          Inr \<lparr>op_input = inp, op_status = st_status state, op_result = st_result state,
               op_log = st_log state,
               op_priority = (case st_priority state of None \<Rightarrow> OP_PRIO_DEFAULT c | Some p \<Rightarrow> p),
               op_start_timestamp = get_or_None (st_start_timestamp state),
               op_exec_timestamp = get_or_None (st_exec_timestamp state),
               op_end_timestamp = get_or_None (st_end_timestamp state)\<rparr>)"

definition QueuedOpCode_Serialize :: "externals \<Rightarrow> queued_opcode \<Rightarrow> opcode_state" where
  "QueuedOpCode_Serialize X opc =
     \<lparr>st_input = getstate X (op_input opc), st_status = op_status opc,
      st_result = op_result opc, st_log = op_log opc,
      st_start_timestamp = Some (op_start_timestamp opc),
      st_exec_timestamp = Some (op_exec_timestamp opc),
      st_end_timestamp = Some (op_end_timestamp opc),
      st_priority = Some (op_priority opc)\<rparr>"

text \<open>\<^verbatim>\<open>_QueuedJob._InitInMemory\<close>; the processor lock is not part of the value.\<close>

definition InitInMemory :: "queued_job \<Rightarrow> bool \<Rightarrow> queued_job" where
  "InitInMemory obj w = obj\<lparr>writable := w, ops_iter := None, cur_opctx := None\<rparr>"

text \<open>
  \<^verbatim>\<open>_QueuedJob._AddReasons\<close>: each opcode's reason trail (the empty list when the
  opcode has none) gets the entry (source, text, time); the text is the format
  \<^verbatim>\<open>job=%d;index=%d\<close> with the job id and the opcode's index.
\<close>

fun AddReasons_loop :: "externals \<Rightarrow> int \<Rightarrow> nat \<Rightarrow> queued_opcode list \<Rightarrow> queued_opcode list" where
  "AddReasons_loop X jid count [] = []"
| "AddReasons_loop X jid count (queued_op # rest) =
     (let opc = op_input queued_op;
          reason_src = NameToReasonSrc X (OP_ID opc);
          reason = (case oc_reason opc of None \<Rightarrow> [] | Some r \<Rightarrow> r);
          reason' = reason @ [(reason_src, ''job=%d;index=%d'', [jid, int count], EpochNano X count)]
      in queued_op\<lparr>op_input := opc\<lparr>oc_reason := Some reason'\<rparr>\<rparr>
           # AddReasons_loop X jid (count + 1) rest)"

definition AddReasons :: "externals \<Rightarrow> queued_job \<Rightarrow> queued_job" where
  "AddReasons X job = job\<lparr>ops := AddReasons_loop X (job_id job) 0 (ops job)\<rparr>"

text \<open>
  \<^verbatim>\<open>_QueuedJob.__init__\<close>: the check for an empty opcode list is its first statement.
  \<open>now\<close> is the value of \<^verbatim>\<open>TimeStampNow()\<close>.
\<close>

definition QueuedJob_init ::
  "externals \<Rightarrow> constants \<Rightarrow> timestamp \<Rightarrow> int \<Rightarrow> opcode list \<Rightarrow> bool \<Rightarrow> error + queued_job" where
  "QueuedJob_init X c now jid opcs w =
     (if opcs = [] then Inl (GenericError (Fmt ''A job needs at least one opcode'' []))
      else
        (let job = InitInMemory
               (AddReasons X
                  \<lparr>job_id = jid, ops = map (QueuedOpCode_init c) opcs, log_serial = 0,
                   ops_iter = None, cur_opctx = None,
                   received_timestamp = Some now, start_timestamp = None,
                   end_timestamp = None, writable = w, archived = False\<rparr>) w
         in if archived job then Inl (AssertionError ''New jobs can not be marked as archived'')
            else Inr job))"

text \<open>
  \<^verbatim>\<open>_QueuedJob.Restore\<close>: the loop appends each restored opcode and raises
  \<^verbatim>\<open>log_serial\<close> to the serials of its log entries.
\<close>

fun Restore_loop ::
  "externals \<Rightarrow> constants \<Rightarrow> opcode_state list \<Rightarrow> queued_opcode list \<Rightarrow> int
     \<Rightarrow> error + queued_opcode list \<times> int" where
  "Restore_loop X c [] acc serial = Inr (acc, serial)"
| "Restore_loop X c (op_state # rest) acc serial =
     (case QueuedOpCode_Restore X c op_state of
        Inl e \<Rightarrow> Inl e
      | Inr opc \<Rightarrow>
          Restore_loop X c rest (acc @ [opc])
            (fold (\<lambda>log_entry s. max s (fst log_entry)) (op_log opc) serial))"

definition Restore ::
  "externals \<Rightarrow> constants \<Rightarrow> job_state \<Rightarrow> bool \<Rightarrow> bool \<Rightarrow> error + queued_job" where
  "Restore X c state w arch =
     (case Restore_loop X c (js_ops state) [] 0 of
        Inl e \<Rightarrow> Inl e
      | Inr (ops', serial) \<Rightarrow>
          Inr (InitInMemory
                 \<lparr>job_id = js_id state, ops = ops', log_serial = serial,
                  ops_iter = None, cur_opctx = None,
                  received_timestamp = get_or_None (js_received_timestamp state),
                  start_timestamp = get_or_None (js_start_timestamp state),
                  end_timestamp = get_or_None (js_end_timestamp state),
                  writable = w, archived = arch\<rparr> w))"

definition Serialize :: "externals \<Rightarrow> queued_job \<Rightarrow> job_state" where
  "Serialize X job =
     \<lparr>js_id = job_id job, js_ops = map (QueuedOpCode_Serialize X) (ops job),
      js_received_timestamp = Some (received_timestamp job),
      js_start_timestamp = Some (start_timestamp job),
      js_end_timestamp = Some (end_timestamp job),
      js_other = []\<rparr>"

section \<open>Dependency manager\<close>

text \<open>The results of \<^verbatim>\<open>_JobDependencyManager.CheckAndRegister\<close>.\<close>

datatype dep_result = WAIT | DEP_ERROR | CANCEL | CONTINUE | WRONGSTATUS

text \<open>
  \<^verbatim>\<open>_JobDependencyManager.CheckAndRegister\<close>. \<open>getstatus_fn\<close> is the manager's
  \<^verbatim>\<open>_getstatus_fn\<close>, which returns a status or raises; \<open>ws\<close> is \<^verbatim>\<open>_waiters\<close>, whose
  sets hold job objects, identified here by their ids. The three assertions on the
  arguments come first; \<^verbatim>\<open>setdefault\<close> creates the entry of the dependency before the
  status is looked at.
\<close>

definition CheckAndRegister ::
  "externals \<Rightarrow> (int \<Rightarrow> error + status) \<Rightarrow> (int \<rightharpoonup> int set) \<Rightarrow> queued_job \<Rightarrow> int \<Rightarrow> status list
     \<Rightarrow> (error + dep_result \<times> message) \<times> (int \<rightharpoonup> int set)" where
  "CheckAndRegister X getstatus_fn ws job dep_job_id dep_status =
     (if \<not> TJobId X (job_id job) then (Inl (AssertionError ''ht.TJobId(job.id)''), ws)
      else if \<not> TJobId X dep_job_id then (Inl (AssertionError ''ht.TJobId(dep_job_id)''), ws)
      else if \<not> list_all (\<lambda>s. s \<in> JOBS_FINALIZED) dep_status
        then (Inl (AssertionError ''ht.TListOf(ht.TElemOf(constants.JOBS_FINALIZED))(dep_status)''), ws)
      else if job_id job = dep_job_id
        then (Inr (DEP_ERROR, Fmt ''Job can not depend on itself'' []), ws)
      else
        (case getstatus_fn dep_job_id of
           Inl (JobLost err) \<Rightarrow> (Inr (DEP_ERROR, Fmt ''Dependency error: %s'' [AErr err]), ws)
         | Inl e \<Rightarrow> (Inl e, ws)
         | Inr status \<Rightarrow>
             (let job_id_waiters = (case ws dep_job_id of None \<Rightarrow> {} | Some w \<Rightarrow> w) in
              if status \<notin> JOBS_FINALIZED then
                (Inr (WAIT, Fmt ''Need to wait for job %s, wanted status %s''
                              [AInt dep_job_id, AStatusList dep_status]),
                 ws(dep_job_id \<mapsto> insert (job_id job) job_id_waiters))
              else
                (let ws' = ws(dep_job_id \<mapsto> job_id_waiters - {job_id job}) in
                 if status = JOB_STATUS_CANCELED \<and> JOB_STATUS_CANCELED \<notin> set dep_status then
                   (Inr (CANCEL, Fmt ''Dependency job %s was cancelled'' [AInt dep_job_id]), ws')
                 else if dep_status = [] \<or> status \<in> set dep_status then
                   (Inr (CONTINUE, Fmt ''Dependency job %s finished with status %s''
                                     [AInt dep_job_id, AStatus status]), ws')
                 else
                   (Inr (WRONGSTATUS,
                         Fmt ''Dependency job %s finished with status %s, not one of %s as required''
                           [AInt dep_job_id, AStatus status, AStatusList dep_status]), ws')))))"

section \<open>The queue\<close>

text \<open>
  Modelled from the spec: the worker pool (module \<^verbatim>\<open>workerpool\<close>, not among the
  sources) holds tasks, each with a priority and a task id; \<^verbatim>\<open>AddManyTasks\<close> adds one
  task for each item. A task's argument is a job object, identified by its id.
\<close>

record task =
  task_args :: int
  task_priority :: int
  task_id :: int

definition AddManyTasks :: "task list \<Rightarrow> int list \<Rightarrow> int list \<Rightarrow> int list \<Rightarrow> task list" where
  "AddManyTasks pool tasks priority ids =
     pool @ map (\<lambda>(a, p, i). \<lparr>task_args = a, task_priority = p, task_id = i\<rparr>)
              (zip tasks (zip priority ids))"

text \<open>
  The state of a \<^verbatim>\<open>JobQueue\<close> with the files it owns. \<open>memcache\<close> holds the job
  objects (it is the store through which a job object is shared); \<open>queue_filelock\<close>
  tells whether \<^verbatim>\<open>_queue_filelock\<close> is set; \<open>disk_jobs\<close> and \<open>disk_archive\<close> are the
  job files of the queue directory and of the archive, a file holding the dictionary
  that \<^verbatim>\<open>serializer.DumpJson\<close> wrote; \<open>disk_serial\<close> is the serial file. Replication to
  the other nodes does not change this state and is left out.
\<close>

record job_queue =
  memcache :: "int \<rightharpoonup> queued_job"
  last_serial :: int
  queue_size :: int
  drained :: bool
  accepting_jobs :: bool
  queue_filelock :: bool
  wpool :: "task list"
  waiters :: "int \<rightharpoonup> int set"
  disk_jobs :: "int \<rightharpoonup> job_state"
  disk_archive :: "int \<rightharpoonup> job_state"
  disk_serial :: int

text \<open>
  \<^verbatim>\<open>JobQueue.UpdateJobUnlocked\<close>: the decorator \<^verbatim>\<open>_RequireOpenQueue\<close>, the three
  assertions under \<^verbatim>\<open>__debug__\<close> (the first is the exclusive or of "finalized" and
  "no end timestamp"), then the file is written.
\<close>

definition UpdateJobUnlocked :: "externals \<Rightarrow> job_queue \<Rightarrow> queued_job \<Rightarrow> error option \<times> job_queue" where
  "UpdateJobUnlocked X q job =
     (if \<not> queue_filelock q then (Some (AssertionError ''Queue should be open''), q)
      else
        (let finalized = (CalcStatus job \<in> JOBS_FINALIZED) in
         if \<not> (finalized \<noteq> (end_timestamp job = None))
           then (Some (AssertionError ''finalized ^ (job.end_timestamp is None)''), q)
         else if \<not> writable job then (Some (AssertionError ''Can not update read-only job''), q)
         else if archived job then (Some (AssertionError ''Can not update archived job''), q)
         else (None, q\<lparr>disk_jobs := (disk_jobs q)(job_id job \<mapsto> Serialize X job)\<rparr>)))"

text \<open>
  \<^verbatim>\<open>JobQueue._LoadJobFromDisk\<close> for the queue directory and, when asked, the archive.
  A file that \<^verbatim>\<open>Restore\<close> cannot read raises JobFileCorrupted, which is the \<open>Inl\<close>
  of the result.
\<close>

definition LoadJobFromDisk ::
  "externals \<Rightarrow> constants \<Rightarrow> job_queue \<Rightarrow> int \<Rightarrow> bool \<Rightarrow> bool option \<Rightarrow> error + queued_job option" where
  "LoadJobFromDisk X c q jid try_archived w =
     (let found =
        (case disk_jobs q jid of
           Some raw_data \<Rightarrow> Some (raw_data, False)
         | None \<Rightarrow>
             (if try_archived then
                (case disk_archive q jid of Some raw_data \<Rightarrow> Some (raw_data, True) | None \<Rightarrow> None)
              else None))
      in case found of
           None \<Rightarrow> Inr None
         | Some (raw_data, arch) \<Rightarrow>
             (let w' = (case w of None \<Rightarrow> \<not> arch | Some b \<Rightarrow> b) in
              case Restore X c raw_data w' arch of
                Inl e \<Rightarrow> Inl e
              | Inr job \<Rightarrow> Inr (Some job)))"





text \<open>
  \<^verbatim>\<open>JobQueue._EnqueueJobsUnlocked\<close>. Its assertion is on the ownership of the
  queue lock, which this sequential model does not hold.
\<close>

definition EnqueueJobsUnlocked :: "constants \<Rightarrow> job_queue \<Rightarrow> queued_job list \<Rightarrow> job_queue" where
  "EnqueueJobsUnlocked c q jobs =
     q\<lparr>wpool := AddManyTasks (wpool q) (map job_id jobs) (map (CalcPriority c) jobs)
                   (map job_id jobs)\<rparr>"

section \<open>Concrete values\<close>

text \<open>
  Small concrete values on which the theorems below are exercised: the constants as
  Ganeti sets them, an opcode without dependencies, a queued opcode in a given status
  and a job with given opcode statuses.
\<close>

definition ganeti_constants :: constants where
  "ganeti_constants =
     \<lparr>OP_PRIO_DEFAULT = 0, OP_PRIO_HIGHEST = -20, OP_PRIO_LOWEST = 19,
      OP_PRIO_SUBMIT_VALID = [10, 0, -10], JOB_QUEUE_SIZE_HARD_LIMIT = 5000\<rparr>"

definition example_opcode :: opcode where
  "example_opcode =
     \<lparr>OP_ID = ''OP_TEST_DELAY'', oc_priority = Some 0, oc_depends = None,
      oc_reason = None, oc_params = JNull\<rparr>"

definition example_op :: "status \<Rightarrow> queued_opcode" where
  "example_op st =
     \<lparr>op_input = example_opcode, op_status = st, op_result = JNull, op_log = [],
      op_priority = 0, op_start_timestamp = None, op_exec_timestamp = None,
      op_end_timestamp = None\<rparr>"

definition example_job :: "status list \<Rightarrow> queued_job" where
  "example_job sts =
     \<lparr>job_id = 1, ops = map example_op sts, log_serial = 0, ops_iter = None,
      cur_opctx = None, received_timestamp = Some (100, 0), start_timestamp = None,
      end_timestamp = None, writable = True, archived = False\<rparr>"

definition example_job_priorities :: queued_job where
  "example_job_priorities =
     (example_job [])\<lparr>ops := [example_op SUCCESS\<lparr>op_priority := -7\<rparr>,
                              example_op WAITING\<lparr>op_priority := 4\<rparr>,
                              example_op QUEUED\<lparr>op_priority := -3\<rparr>]\<rparr>"

definition example_queue :: job_queue where
  "example_queue =
     \<lparr>memcache = Map.empty, last_serial = 0, queue_size = 0, drained = False,
      accepting_jobs = True, queue_filelock = True, wpool = [], waiters = Map.empty,
      disk_jobs = Map.empty, disk_archive = Map.empty, disk_serial = 0\<rparr>"

definition example_opctx :: "timeout list \<Rightarrow> op_exec_context" where
  "example_opctx remaining =
     \<lparr>ctx_index = 0, ctx_jobdeps = None, ctx_timeout_strategy_factory = [1, 2, 4],
      ctx_timeout_strategy = \<lparr>ts_fn = remaining, ts_next = None\<rparr>\<rparr>"

definition example_externals :: externals where
  "example_externals =
     \<lparr>LoadOpCode = (\<lambda>j. if j = JStr ''OP_TEST_DELAY'' then Inr example_opcode
                         else Inl (GenericError (Fmt ''OpCode takes a dict with OP_ID'' []))),
      getstate = (\<lambda>opc. JStr (OP_ID opc)),
      NameToReasonSrc = (\<lambda>name. ''opcode:'' @ name),
      TNoRelativeJobDependencies =
        (\<lambda>deps. case deps of None \<Rightarrow> True
                 | Some ds \<Rightarrow> list_all (\<lambda>(jid, sts). 0 \<le> jid \<and> list_all (\<lambda>s. s \<in> JOBS_FINALIZED) sts) ds),
      TJobId = (\<lambda>jid. 0 \<le> jid),
      EpochNano = (\<lambda>n. 1000 + int n)\<rparr>"

text \<open>
  A well-formed serialized state: every key of the dictionaries is present, every
  opcode's input is one \<^verbatim>\<open>LoadOpCode\<close> accepts and \<^verbatim>\<open>__getstate__\<close> gives back,
  and no log serial is negative.
\<close>

definition op_state_well_formed :: "externals \<Rightarrow> opcode_state \<Rightarrow> bool" where
  "op_state_well_formed X os \<longleftrightarrow>
     (case LoadOpCode X (st_input os) of
        Inl e \<Rightarrow> False
      | Inr inp \<Rightarrow> getstate X inp = st_input os) \<and>
     st_start_timestamp os \<noteq> None \<and> st_exec_timestamp os \<noteq> None \<and>
     st_end_timestamp os \<noteq> None \<and> st_priority os \<noteq> None \<and>
     list_all (\<lambda>log_entry. 0 \<le> fst log_entry) (st_log os)"

definition state_well_formed :: "externals \<Rightarrow> job_state \<Rightarrow> bool" where
  "state_well_formed X s \<longleftrightarrow>
     list_all (op_state_well_formed X) (js_ops s) \<and>
     js_received_timestamp s \<noteq> None \<and> js_start_timestamp s \<noteq> None \<and>
     js_end_timestamp s \<noteq> None"

text \<open>The serials of all log entries of a serialized job, in order.\<close>

definition log_serials :: "job_state \<Rightarrow> int list" where
  "log_serials s = concat (map (\<lambda>os. map fst (st_log os)) (js_ops s))"

definition example_op_state :: "status \<Rightarrow> log_entry list \<Rightarrow> opcode_state" where
  "example_op_state st lg =
     \<lparr>st_input = JStr ''OP_TEST_DELAY'', st_status = st, st_result = JNull, st_log = lg,
      st_start_timestamp = Some (Some (101, 5)), st_exec_timestamp = Some None,
      st_end_timestamp = Some None, st_priority = Some (-10)\<rparr>"

definition example_job_state :: job_state where
  "example_job_state =
     \<lparr>js_id = 7,
      js_ops = [example_op_state SUCCESS
                  [(1, (102, 0), ''message'', JStr ''one''), (2, (103, 0), ''message'', JStr ''two'')],
                example_op_state RUNNING [(3, (104, 0), ''message'', JStr ''three'')],
                example_op_state QUEUED []],
      js_received_timestamp = Some (Some (100, 0)),
      js_start_timestamp = Some (Some (101, 5)),
      js_end_timestamp = Some None,
      js_other = [(''log_serial'', JInt 99)]\<rparr>"

text \<open>
  What \<^verbatim>\<open>MarkUnfinishedOps\<close> does to one opcode, and the order of opcodes its
  assertion demands: no finalized opcode after one that is not finalized.
\<close>

definition mark_unfinished :: "status \<Rightarrow> json \<Rightarrow> queued_opcode \<Rightarrow> queued_opcode" where
  "mark_unfinished st res opc =
     (if op_status opc \<in> OPS_FINALIZED then opc else opc\<lparr>op_status := st, op_result := res\<rparr>)"

definition ops_in_order :: "queued_opcode list \<Rightarrow> bool" where
  "ops_in_order xs \<longleftrightarrow>
     list_all (\<lambda>opc. op_status opc \<notin> OPS_FINALIZED)
       (dropWhile (\<lambda>opc. op_status opc \<in> OPS_FINALIZED) xs)"



text \<open>A queue whose directory holds one job file, under the id the file gives.\<close>

definition example_queue_with_file :: "job_state \<Rightarrow> job_queue" where
  "example_queue_with_file s = example_queue\<lparr>disk_jobs := [js_id s \<mapsto> s]\<rparr>"

section \<open>Submitting jobs\<close>

text \<open>
  \<^verbatim>\<open>JobQueue._NewSerialsUnlocked\<close>: the serial file is written, then the new ids
  \<^verbatim>\<open>last_serial + 1 .. last_serial + count\<close> are returned (\<^verbatim>\<open>jstore.FormatJobID\<close>, not
  among the sources, is taken to return the id it is given). The count is a natural
  number, as the first assertion demands.
\<close>

definition NewSerialsUnlocked :: "job_queue \<Rightarrow> nat \<Rightarrow> int list \<times> job_queue" where
  "NewSerialsUnlocked q count =
     (let serial = last_serial q + int count
      in ([last_serial q + 1 .. serial], q\<lparr>disk_serial := serial, last_serial := serial\<rparr>))"

text \<open>
  The loop of \<^verbatim>\<open>_SubmitJobUnlocked\<close> over \<^verbatim>\<open>enumerate(job.ops)\<close>: the priority check,
  then the check of the dependencies.
\<close>

fun check_submitted_ops :: "externals \<Rightarrow> constants \<Rightarrow> nat \<Rightarrow> queued_opcode list \<Rightarrow> error option" where
  "check_submitted_ops X c idx [] = None"
| "check_submitted_ops X c idx (opc # rest) =
     (if op_priority opc \<notin> set (OP_PRIO_SUBMIT_VALID c) then
        Some (GenericError (Fmt ''Opcode %s has invalid priority %s, allowed are %s''
                [AInt (int idx), AInt (op_priority opc), AIntList (OP_PRIO_SUBMIT_VALID c)]))
      else
        (let dependencies = oc_depends (op_input opc) in
         if \<not> TNoRelativeJobDependencies X dependencies then
           Some (GenericError (Fmt ''Opcode %s has invalid dependencies, must match %s: %s''
                   [AInt (int idx), AStr ''TNoRelativeJobDependencies'', ADeps dependencies]))
         else check_submitted_ops X c (idx + 1) rest))"

text \<open>
  \<^verbatim>\<open>JobQueue._SubmitJobUnlocked\<close>, under \<^verbatim>\<open>_RequireOpenQueue\<close>. The result is the
  raised error or the new job, with the queue as the call leaves it.
\<close>

definition SubmitJobUnlocked ::
  "externals \<Rightarrow> constants \<Rightarrow> timestamp \<Rightarrow> job_queue \<Rightarrow> int \<Rightarrow> opcode list
     \<Rightarrow> (error + queued_job) \<times> job_queue" where
  "SubmitJobUnlocked X c now q jid opcs =
     (if \<not> queue_filelock q then (Inl (AssertionError ''Queue should be open''), q)
      else if queue_size q \<ge> JOB_QUEUE_SIZE_HARD_LIMIT c then (Inl JobQueueFull, q)
      else
        (case QueuedJob_init X c now jid opcs True of
           Inl e \<Rightarrow> (Inl e, q)
         | Inr job \<Rightarrow>
             (case check_submitted_ops X c 0 (ops job) of
                Some e \<Rightarrow> (Inl e, q)
              | None \<Rightarrow>
                  (case UpdateJobUnlocked X q job of
                     (Some e, q1) \<Rightarrow> (Inl e, q1)
                   | (None, q1) \<Rightarrow>
                       (Inr job,
                        q1\<lparr>queue_size := queue_size q1 + 1,
                           memcache := (memcache q1)(jid \<mapsto> job)\<rparr>)))))"

text \<open>
  \<^verbatim>\<open>JobQueue.SubmitJob\<close>: the decorators \<^verbatim>\<open>_RequireOpenQueue\<close> and
  \<^verbatim>\<open>_RequireNonDrainedQueue\<close>, then the body.
\<close>

definition SubmitJob ::
  "externals \<Rightarrow> constants \<Rightarrow> timestamp \<Rightarrow> job_queue \<Rightarrow> opcode list \<Rightarrow> (error + int) \<times> job_queue" where
  "SubmitJob X c now q opcs =
     (if \<not> queue_filelock q then (Inl (AssertionError ''Queue should be open''), q)
      else if drained q then
        (Inl (JobQueueDrainError (Fmt ''Job queue is drained, refusing job'' [])), q)
      else if \<not> accepting_jobs q then
        (Inl (JobQueueError (Fmt ''Job queue is shutting down, refusing job'' [])), q)
      else
        (case NewSerialsUnlocked q 1 of
           (ids, q1) \<Rightarrow>
             (case ids of
                [jid] \<Rightarrow>
                  (case SubmitJobUnlocked X c now q1 jid opcs of
                     (Inl e, q2) \<Rightarrow> (Inl e, q2)
                   | (Inr job, q2) \<Rightarrow> (Inr jid, EnqueueJobsUnlocked c q2 [job]))
              | _ \<Rightarrow> (Inl (AssertionError ''len(result) == count''), q1))))"

text \<open>
  What the submission checks ask of one opcode: its priority, the default when it has
  none, is a valid submit priority, and its dependencies pass the type check.
\<close>

definition submit_valid :: "externals \<Rightarrow> constants \<Rightarrow> opcode \<Rightarrow> bool" where
  "submit_valid X c opc \<longleftrightarrow>
     (case oc_priority opc of None \<Rightarrow> OP_PRIO_DEFAULT c | Some p \<Rightarrow> p) \<in> set (OP_PRIO_SUBMIT_VALID c) \<and>
     TNoRelativeJobDependencies X (oc_depends opc)"

section \<open>The job processor\<close>

text \<open>
  \<^verbatim>\<open>JobQueue.SafeLoadJobFromDisk\<close> and \<^verbatim>\<open>JobQueue._GetJobStatusForDependencies\<close>.
  The latter asserts \<^verbatim>\<open>not job.writable\<close> before it tests \<^verbatim>\<open>job\<close>: when the job
  is not found, reading the attribute of \<^verbatim>\<open>None\<close> raises AttributeError.
\<close>

definition SafeLoadJobFromDisk ::
  "externals \<Rightarrow> constants \<Rightarrow> job_queue \<Rightarrow> int \<Rightarrow> bool \<Rightarrow> bool option \<Rightarrow> queued_job option" where
  "SafeLoadJobFromDisk X c q jid try_archived w =
     (case LoadJobFromDisk X c q jid try_archived w of Inl e \<Rightarrow> None | Inr job \<Rightarrow> job)"

definition GetJobStatusForDependencies ::
  "externals \<Rightarrow> constants \<Rightarrow> job_queue \<Rightarrow> int \<Rightarrow> error + status" where
  "GetJobStatusForDependencies X c q jid =
     (case SafeLoadJobFromDisk X c q jid True (Some False) of
        None \<Rightarrow> Inl (AttributeError ''NoneType object has no attribute writable'')
      | Some job \<Rightarrow>
          (if writable job then Inl (AssertionError ''Got writable job'')
           else Inr (CalcStatus job)))"

text \<open>
  Modelled from the spec: the module \<^verbatim>\<open>errors\<close> is not among the sources. An error
  is encoded as the pair of its class name and its arguments; \<^verbatim>\<open>GetEncodedError\<close>
  recognises such a pair. An exception is either of a subclass of GenericError, with
  its class name and message, or any other, with its text.
\<close>

datatype exn = GenericErrorExc string message | OtherExc string

fun message_json :: "message \<Rightarrow> json" where
  "message_json (Fmt text args) = JStr text"

definition EncodeException :: "string \<Rightarrow> json \<Rightarrow> json" where
  "EncodeException cls arg = JList [JStr cls, JList [arg]]"

fun GetEncodedError :: "json \<Rightarrow> bool" where
  "GetEncodedError (JList [JStr cls, JList args]) = True"
| "GetEncodedError other = False"

text \<open>\<^verbatim>\<open>_EncodeOpError\<close>.\<close>

fun EncodeOpError :: "exn \<Rightarrow> json" where
  "EncodeOpError (GenericErrorExc cls msg) = EncodeException cls (message_json msg)"
| "EncodeOpError (OtherExc text) = EncodeException ''OpExecError'' (JStr text)"

text \<open>The opcode of a context, and a change to it, through the index.\<close>

definition ctx_op :: "op_exec_context \<Rightarrow> queued_job \<Rightarrow> queued_opcode" where
  "ctx_op opctx job = ops job ! ctx_index opctx"

definition set_ctx_op :: "op_exec_context \<Rightarrow> queued_opcode \<Rightarrow> queued_job \<Rightarrow> queued_job" where
  "set_ctx_op opctx opc job = job\<lparr>ops := (ops job)[ctx_index opctx := opc]\<rparr>"

text \<open>
  \<^verbatim>\<open>_OpExecContext.__init__\<close>: the dependencies are copied when the opcode has a
  non-empty list of them; the log prefix and the summary serve logging only.
\<close>

definition OpExecContext_init :: "queued_opcode \<Rightarrow> nat \<Rightarrow> timeout_strategy \<Rightarrow> op_exec_context" where
  "OpExecContext_init opc index factory =
     \<lparr>ctx_index = index,
      ctx_jobdeps = (case oc_depends (op_input opc) of
                       None \<Rightarrow> None | Some [] \<Rightarrow> None | Some (d # ds) \<Rightarrow> Some (d # ds)),
      ctx_timeout_strategy_factory = factory,
      ctx_timeout_strategy = \<lparr>ts_fn = factory, ts_next = None\<rparr>\<rparr>"

text \<open>
  \<^verbatim>\<open>_JobProcessor._FindNextOpcode\<close>: the loop over the enumerate iterator, here over
  the opcodes from the iterator's position on; it returns the position it leaves the
  iterator at.
\<close>

fun FindNextOpcode_loop ::
  "timeout_strategy \<Rightarrow> queued_opcode list \<Rightarrow> nat \<Rightarrow> (error + op_exec_context) \<times> nat" where
  "FindNextOpcode_loop factory [] idx =
     (Inl (ProgrammerError (Fmt ''Called for a finished job'' [])), idx)"
| "FindNextOpcode_loop factory (opc # rest) idx =
     (if op_status opc = OP_STATUS_RUNNING then
        (Inl (ProgrammerError (Fmt ''Called for job marked as running'' [])), idx + 1)
      else if op_status opc \<notin> OPS_FINALIZED then
        (Inr (OpExecContext_init opc idx factory), idx + 1)
      else FindNextOpcode_loop factory rest (idx + 1))"

definition FindNextOpcode ::
  "timeout_strategy \<Rightarrow> queued_job \<Rightarrow> (error + op_exec_context) \<times> queued_job" where
  "FindNextOpcode factory job =
     (let pos = (case ops_iter job of None \<Rightarrow> 0 | Some p \<Rightarrow> p) in
      case FindNextOpcode_loop factory (drop pos (ops job)) pos of
        (r, pos') \<Rightarrow> (r, job\<lparr>ops_iter := Some pos'\<rparr>))"

text \<open>\<^verbatim>\<open>_JobProcessor._MarkWaitlock\<close>; \<open>now\<close> is the value of \<^verbatim>\<open>TimeStampNow()\<close>.\<close>

definition MarkWaitlock ::
  "timestamp \<Rightarrow> queued_job \<Rightarrow> op_exec_context \<Rightarrow> (error + bool) \<times> queued_job" where
  "MarkWaitlock now job opctx =
     (let opc = ctx_op opctx job in
      if op_status opc \<notin> {OP_STATUS_QUEUED, OP_STATUS_WAITING} then
        (Inl (AssertionError ''op.status in (OP_STATUS_QUEUED, OP_STATUS_WAITING)''), job)
      else
        (let opc1 = opc\<lparr>op_result := JNull\<rparr>;
             update1 = (op_status opc1 = OP_STATUS_QUEUED);
             opc2 = (if op_status opc1 = OP_STATUS_QUEUED
                     then opc1\<lparr>op_status := OP_STATUS_WAITING\<rparr> else opc1);
             update2 = (update1 \<or> op_start_timestamp opc2 = None);
             opc3 = (if op_start_timestamp opc2 = None
                     then opc2\<lparr>op_start_timestamp := Some now\<rparr> else opc2);
             job1 = set_ctx_op opctx opc3 job;
             update3 = (update2 \<or> start_timestamp job1 = None);
             job2 = (if start_timestamp job1 = None
                     then job1\<lparr>start_timestamp := op_start_timestamp opc3\<rparr> else job1)
         in (Inr update3, job2)))"

text \<open>
  \<^verbatim>\<open>_JobProcessor._CheckDependencies\<close>: the loop over \<^verbatim>\<open>opctx.jobdeps\<close>, which
  returns whether the job has to wait, the dependencies left, the waiters and the job.
  \<open>now\<close> is the time \<^verbatim>\<open>job.Cancel()\<close> would read.
\<close>

fun CheckDependencies_loop ::
  "externals \<Rightarrow> (int \<Rightarrow> error + status) \<Rightarrow> timestamp \<Rightarrow> op_exec_context
     \<Rightarrow> (int \<times> status list) list \<Rightarrow> (int \<rightharpoonup> int set) \<Rightarrow> queued_job
     \<Rightarrow> (error + bool) \<times> (int \<times> status list) list \<times> (int \<rightharpoonup> int set) \<times> queued_job" where
  "CheckDependencies_loop X getstatus_fn now opctx [] ws job = (Inr False, [], ws, job)"
| "CheckDependencies_loop X getstatus_fn now opctx ((dep_job_id, dep_status) # rest) ws job =
     (case CheckAndRegister X getstatus_fn ws job dep_job_id dep_status of
        (Inl e, ws') \<Rightarrow> (Inl e, (dep_job_id, dep_status) # rest, ws', job)
      | (Inr (depresult, depmsg), ws') \<Rightarrow>
          (case depresult of
             CONTINUE \<Rightarrow> CheckDependencies_loop X getstatus_fn now opctx rest ws' job
           | WAIT \<Rightarrow> (Inr True, (dep_job_id, dep_status) # rest, ws', job)
           | CANCEL \<Rightarrow>
               (case Cancel now job of
                  (Inl e, job') \<Rightarrow> (Inl e, (dep_job_id, dep_status) # rest, ws', job')
                | (Inr r, job') \<Rightarrow>
                    (if op_status (ctx_op opctx job') \<noteq> OP_STATUS_CANCELING then
                       (Inl (AssertionError ''op.status == constants.OP_STATUS_CANCELING''),
                        (dep_job_id, dep_status) # rest, ws', job')
                     else (Inr False, (dep_job_id, dep_status) # rest, ws', job')))
           | WRONGSTATUS \<Rightarrow>
               (Inr False, (dep_job_id, dep_status) # rest, ws',
                set_ctx_op opctx
                  ((ctx_op opctx job)\<lparr>op_status := OP_STATUS_ERROR,
                     op_result := EncodeOpError (GenericErrorExc ''OpExecError'' depmsg)\<rparr>) job)
           | DEP_ERROR \<Rightarrow>
               (Inr False, (dep_job_id, dep_status) # rest, ws',
                set_ctx_op opctx
                  ((ctx_op opctx job)\<lparr>op_status := OP_STATUS_ERROR,
                     op_result := EncodeOpError (GenericErrorExc ''OpExecError'' depmsg)\<rparr>) job)))"

definition CheckDependencies ::
  "externals \<Rightarrow> constants \<Rightarrow> timestamp \<Rightarrow> job_queue \<Rightarrow> queued_job \<Rightarrow> op_exec_context
     \<Rightarrow> (error + bool) \<times> job_queue \<times> queued_job \<times> op_exec_context" where
  "CheckDependencies X c now q job opctx =
     (case ctx_jobdeps opctx of
        None \<Rightarrow> (Inr False, q, job, opctx)
      | Some deps \<Rightarrow>
          (case CheckDependencies_loop X (GetJobStatusForDependencies X c q) now opctx deps
                  (waiters q) job of
             (r, deps', ws', job') \<Rightarrow>
               (r, q\<lparr>waiters := ws'\<rparr>, job', opctx\<lparr>ctx_jobdeps := Some deps'\<rparr>)))"

text \<open>
  The opcode executor (\<^verbatim>\<open>mcpu.Processor.ExecOpCode\<close>, not among the sources) runs
  while the queue lock is released. What the queue sees of one execution is a sequence
  of events and an end. An event is a call of a method of \<^verbatim>\<open>_OpExecCallbacks\<close>
  (\<^verbatim>\<open>NotifyStart\<close>, \<^verbatim>\<open>Feedback\<close>, \<^verbatim>\<open>CurrentPriority\<close>), with the time it reads, or a
  call by another thread of \<^verbatim>\<open>JobQueue.CancelJob\<close> for this job or of
  \<^verbatim>\<open>JobQueue.PrepareShutdown\<close>. An exception a callback raises ends the execution,
  as does the executor's return or an exception of its own.
\<close>

datatype exec_event =
    NotifyStart timestamp
  | Feedback timestamp string json
  | CurrentPriority
  | OtherCancelJob timestamp
  | OtherPrepareShutdown

datatype exec_raise =
    LockAcquireTimeout
  | CancelJob_raised
  | QueueShutdown_raised
  | Exception_raised exn

datatype exec_end = Returns json | Raises exec_raise

text \<open>An error raised inside a callback, as the exception the executor passes on.\<close>

fun exn_of_error :: "error \<Rightarrow> exn" where
  "exn_of_error (GenericError msg) = GenericErrorExc ''GenericError'' msg"
| "exn_of_error (JobQueueDrainError msg) = GenericErrorExc ''JobQueueDrainError'' msg"
| "exn_of_error (JobQueueError msg) = GenericErrorExc ''JobQueueError'' msg"
| "exn_of_error JobQueueFull = GenericErrorExc ''JobQueueFull'' (Fmt [] [])"
| "exn_of_error (JobLost msg) = GenericErrorExc ''JobLost'' msg"
| "exn_of_error (ProgrammerError msg) = GenericErrorExc ''ProgrammerError'' msg"
| "exn_of_error (AssertionError text) = OtherExc text"
| "exn_of_error (AttributeError text) = OtherExc text"

text \<open>\<^verbatim>\<open>_OpExecCallbacks._CheckCancel\<close>.\<close>

definition CheckCancel :: "job_queue \<Rightarrow> queued_job \<Rightarrow> op_exec_context \<Rightarrow> exec_raise option" where
  "CheckCancel q job opctx =
     (if op_status (ctx_op opctx job) = OP_STATUS_CANCELING then Some CancelJob_raised
      else if \<not> accepting_jobs q then Some QueueShutdown_raised
      else None)"

text \<open>
  One event: \<^verbatim>\<open>NotifyStart\<close>, \<^verbatim>\<open>_AppendFeedback\<close> and \<^verbatim>\<open>CurrentPriority\<close> of
  \<^verbatim>\<open>_OpExecCallbacks\<close>, and the two calls of other threads. An exception in another
  thread does not reach the executor.
\<close>

fun run_event ::
  "externals \<Rightarrow> op_exec_context \<Rightarrow> exec_event \<Rightarrow> job_queue \<times> queued_job
     \<Rightarrow> exec_raise option \<times> job_queue \<times> queued_job" where
  "run_event X opctx (NotifyStart now) (q, job) =
     (if op_status (ctx_op opctx job) \<notin> {OP_STATUS_WAITING, OP_STATUS_CANCELING} then
        (Some (Exception_raised (OtherExc ''AssertionError'')), q, job)
      else
        (case CheckCancel q job opctx of
           Some r \<Rightarrow> (Some r, q, job)
         | None \<Rightarrow>
             (let job' = set_ctx_op opctx
                    ((ctx_op opctx job)\<lparr>op_status := OP_STATUS_RUNNING,
                       op_exec_timestamp := Some now\<rparr>) job
              in case UpdateJobUnlocked X q job' of
                   (Some e, q') \<Rightarrow> (Some (Exception_raised (exn_of_error e)), q', job')
                 | (None, q') \<Rightarrow> (None, q', job'))))"
| "run_event X opctx (Feedback timestamp log_type log_msg) (q, job) =
     (let job1 = job\<lparr>log_serial := log_serial job + 1\<rparr>;
          opc = ctx_op opctx job1;
          job' = set_ctx_op opctx
                   (opc\<lparr>op_log := op_log opc @ [(log_serial job1, timestamp, log_type, log_msg)]\<rparr>)
                   job1
      in case UpdateJobUnlocked X q job' of
           (Some e, q') \<Rightarrow> (Some (Exception_raised (exn_of_error e)), q', job')
         | (None, q') \<Rightarrow> (None, q', job'))"
| "run_event X opctx CurrentPriority (q, job) =
     (if op_status (ctx_op opctx job) \<notin> {OP_STATUS_WAITING, OP_STATUS_CANCELING} then
        (Some (Exception_raised (OtherExc ''AssertionError'')), q, job)
      else (CheckCancel q job opctx, q, job))"
| "run_event X opctx (OtherCancelJob now) (q, job) =
     (case Cancel now job of
        (Inl e, job') \<Rightarrow> (None, q, job')
      | (Inr (success, msg), job') \<Rightarrow>
          (if success then (None, snd (UpdateJobUnlocked X q job'), job') else (None, q, job')))"
| "run_event X opctx OtherPrepareShutdown (q, job) =
     (None, q\<lparr>accepting_jobs := False\<rparr>, job)"

fun run_events ::
  "externals \<Rightarrow> op_exec_context \<Rightarrow> exec_event list \<Rightarrow> job_queue \<times> queued_job
     \<Rightarrow> exec_raise option \<times> job_queue \<times> queued_job" where
  "run_events X opctx [] st = (None, st)"
| "run_events X opctx (ev # evs) st =
     (case run_event X opctx ev st of
        (Some r, st') \<Rightarrow> (Some r, st')
      | (None, st') \<Rightarrow> run_events X opctx evs st')"

text \<open>
  A \<^verbatim>\<open>_JobProcessor\<close>: the timeout strategy factory, the executor as the events and
  the end of its run on an opcode with a timeout, and the times the processor reads
  (in \<^verbatim>\<open>_MarkWaitlock\<close>, in \<^verbatim>\<open>job.Cancel()\<close>, at the end of the opcode, in
  \<^verbatim>\<open>job.Finalize()\<close>).
\<close>

record job_processor =
  timeout_strategy_factory :: timeout_strategy
  opexec_fn :: "opcode \<Rightarrow> timeout option \<Rightarrow> exec_event list \<times> exec_end"
  now_waitlock :: timestamp
  now_cancel :: timestamp
  now_op_end :: timestamp
  now_finalize :: timestamp

datatype processor_result = DEFER | WAITDEP | FINISHED

text \<open>
  \<^verbatim>\<open>_JobProcessor._ExecOpCodeUnlocked\<close>. The assertions in its exception handlers
  raise out of it.
\<close>

definition ExecOpCodeUnlocked ::
  "externals \<Rightarrow> job_processor \<Rightarrow> op_exec_context \<Rightarrow> job_queue \<times> queued_job
     \<Rightarrow> (error + status \<times> json) \<times> op_exec_context \<times> job_queue \<times> queued_job" where
  "ExecOpCodeUnlocked X P opctx st =
     (case st of (q, job) \<Rightarrow>
      if op_status (ctx_op opctx job) \<notin> {OP_STATUS_WAITING, OP_STATUS_CANCELING} then
        (Inl (AssertionError ''op.status in (OP_STATUS_WAITING, OP_STATUS_CANCELING)''), opctx, q, job)
      else if op_status (ctx_op opctx job) = OP_STATUS_CANCELING then
        (Inr (OP_STATUS_CANCELING, JNull), opctx, q, job)
      else
        (case GetNextLockTimeout opctx of
           (timeout, opctx') \<Rightarrow>
             (case opexec_fn P (op_input (ctx_op opctx job)) timeout of
                (events, ending) \<Rightarrow>
                  (case run_events X opctx' events (q, job) of
                     (raised, q', job') \<Rightarrow>
                       (let outcome = (case raised of Some r \<Rightarrow> Raises r | None \<Rightarrow> ending);
                            opc = ctx_op opctx' job'
                        in case outcome of
                             Raises LockAcquireTimeout \<Rightarrow>
                               (if timeout = None then
                                  (Inl (AssertionError ''Received timeout for blocking acquire''),
                                   opctx', q', job')
                                else if op_status opc \<notin> {OP_STATUS_WAITING, OP_STATUS_CANCELING} then
                                  (Inl (AssertionError
                                     ''op.status in (OP_STATUS_WAITING, OP_STATUS_CANCELING)''),
                                   opctx', q', job')
                                else if op_status opc = OP_STATUS_CANCELING then
                                  (Inr (OP_STATUS_CANCELING, JNull), opctx', q', job')
                                else if \<not> accepting_jobs q' then
                                  (Inr (OP_STATUS_QUEUED, JNull), opctx', q', job')
                                else (Inr (OP_STATUS_WAITING, JNull), opctx', q', job'))
                           | Raises CancelJob_raised \<Rightarrow>
                               (if op_status opc \<noteq> OP_STATUS_CANCELING then
                                  (Inl (AssertionError ''op.status == constants.OP_STATUS_CANCELING''),
                                   opctx', q', job')
                                else (Inr (OP_STATUS_CANCELING, JNull), opctx', q', job'))
                           | Raises QueueShutdown_raised \<Rightarrow>
                               (if op_status opc \<noteq> OP_STATUS_WAITING then
                                  (Inl (AssertionError ''op.status == constants.OP_STATUS_WAITING''),
                                   opctx', q', job')
                                else (Inr (OP_STATUS_QUEUED, JNull), opctx', q', job'))
                           | Raises (Exception_raised err) \<Rightarrow>
                               (Inr (OP_STATUS_ERROR, EncodeOpError err), opctx', q', job')
                           | Returns result \<Rightarrow>
                               (Inr (OP_STATUS_SUCCESS, result), opctx', q', job'))))))"

text \<open>\<^verbatim>\<open>_JobDependencyManager.JobWaiting\<close>, on the waiters of the queue.\<close>

definition JobWaiting :: "job_queue \<Rightarrow> queued_job \<Rightarrow> bool" where
  "JobWaiting q job \<longleftrightarrow> job_id job \<in> \<Union> (ran (waiters q))"

text \<open>
  \<^verbatim>\<open>_JobProcessor.__call__\<close>, in the order of the source. First the part that
  chooses the opcode: the check for a finalized job, the stashed context or
  \<^verbatim>\<open>_FindNextOpcode\<close>, and the three consistency assertions. It returns FINISHED or
  the context.
\<close>

definition call_choose ::
  "constants \<Rightarrow> job_processor \<Rightarrow> queued_job
     \<Rightarrow> (error + processor_result + op_exec_context) \<times> queued_job" where
  "call_choose c P job =
     (if \<not> writable job then (Inl (AssertionError ''Expected writable job''), job)
      else if CalcStatus job \<in> JOBS_FINALIZED then (Inr (Inl FINISHED), job)
      else
        (case (case cur_opctx job of
                 Some opctx \<Rightarrow> (Inr opctx, job\<lparr>cur_opctx := None\<rparr>)
               | None \<Rightarrow> FindNextOpcode (timeout_strategy_factory P) job) of
           (Inl e, job1) \<Rightarrow> (Inl e, job1)
         | (Inr opctx, job1) \<Rightarrow>
             (let opc = ctx_op opctx job1 in
              if \<not> list_all (\<lambda>i. op_status i \<in> {OP_STATUS_QUEUED, OP_STATUS_CANCELING})
                     (drop (ctx_index opctx + 1) (ops job1)) then
                (Inl (AssertionError ''later opcodes are queued or canceling''), job1)
              else if op_status opc \<notin> {OP_STATUS_QUEUED, OP_STATUS_WAITING, OP_STATUS_CANCELING} then
                (Inl (AssertionError ''op.status in (QUEUED, WAITING, CANCELING)''), job1)
              else if \<not> (op_priority opc \<le> OP_PRIO_LOWEST c \<and> op_priority opc \<ge> OP_PRIO_HIGHEST c) then
                (Inl (AssertionError ''op.priority within OP_PRIO_HIGHEST and OP_PRIO_LOWEST''), job1)
              else (Inr (Inr opctx), job1))))"

text \<open>
  The part that prepares the opcode, for an opcode that is not CANCELING:
  \<^verbatim>\<open>_MarkWaitlock\<close>, the write to disk, the assertions, \<^verbatim>\<open>_CheckDependencies\<close>.
\<close>

definition call_wait ::
  "externals \<Rightarrow> constants \<Rightarrow> job_processor \<Rightarrow> op_exec_context \<Rightarrow> job_queue \<times> queued_job
     \<Rightarrow> (error + bool) \<times> op_exec_context \<times> job_queue \<times> queued_job" where
  "call_wait X c P opctx st =
     (case st of (q, job) \<Rightarrow>
      case MarkWaitlock (now_waitlock P) job opctx of
        (Inl e, job1) \<Rightarrow> (Inl e, opctx, q, job1)
      | (Inr update, job1) \<Rightarrow>
          (case (if update then UpdateJobUnlocked X q job1 else (None, q)) of
             (Some e, q1) \<Rightarrow> (Inl e, opctx, q1, job1)
           | (None, q1) \<Rightarrow>
               (if op_status (ctx_op opctx job1) \<noteq> OP_STATUS_WAITING then
                  (Inl (AssertionError ''op.status == constants.OP_STATUS_WAITING''), opctx, q1, job1)
                else if CalcStatus job1 \<noteq> JOB_STATUS_WAITING then
                  (Inl (AssertionError ''job.CalcStatus() == constants.JOB_STATUS_WAITING''),
                   opctx, q1, job1)
                else if start_timestamp job1 = None \<or> op_start_timestamp (ctx_op opctx job1) = None then
                  (Inl (AssertionError ''job.start_timestamp and op.start_timestamp''), opctx, q1, job1)
                else
                  (case CheckDependencies X c (now_cancel P) q1 job1 opctx of
                     (Inl e, q2, job2, opctx2) \<Rightarrow> (Inl e, opctx2, q2, job2)
                   | (Inr waitjob, q2, job2, opctx2) \<Rightarrow>
                       (if op_status (ctx_op opctx2 job2)
                             \<notin> {OP_STATUS_WAITING, OP_STATUS_CANCELING, OP_STATUS_ERROR} then
                          (Inl (AssertionError ''op.status in (WAITING, CANCELING, ERROR)''),
                           opctx2, q2, job2)
                        else (Inr waitjob, opctx2, q2, job2))))))"

text \<open>
  The part that executes the opcode, unless the job waits or the opcode is CANCELING or
  ERROR already, and stores the status and the result it gets.
\<close>

definition call_exec ::
  "externals \<Rightarrow> job_processor \<Rightarrow> bool \<Rightarrow> op_exec_context \<Rightarrow> job_queue \<times> queued_job
     \<Rightarrow> error option \<times> op_exec_context \<times> job_queue \<times> queued_job" where
  "call_exec X P waitjob opctx st =
     (case st of (q, job) \<Rightarrow>
      if \<not> (waitjob \<or> op_status (ctx_op opctx job) \<in> {OP_STATUS_CANCELING, OP_STATUS_ERROR}) then
        (if ctx_jobdeps opctx \<noteq> None \<and> ctx_jobdeps opctx \<noteq> Some [] then
           (Some (AssertionError ''Not all dependencies were removed''), opctx, q, job)
         else
           (case ExecOpCodeUnlocked X P opctx (q, job) of
              (Inl e, opctx', q', job') \<Rightarrow> (Some e, opctx', q', job')
            | (Inr (op_status', op_result'), opctx', q', job') \<Rightarrow>
                (None, opctx', q',
                 set_ctx_op opctx'
                   ((ctx_op opctx' job')\<lparr>op_status := op_status', op_result := op_result'\<rparr>) job')))
      else (None, opctx, q, job))"

text \<open>
  The part that ends the opcode: an opcode that is neither WAITING nor QUEUED gets its
  end timestamp.
\<close>

definition call_op_end ::
  "job_processor \<Rightarrow> op_exec_context \<Rightarrow> queued_job \<Rightarrow> error option \<times> queued_job" where
  "call_op_end P opctx job =
     (let opc = ctx_op opctx job in
      if op_status opc \<in> {OP_STATUS_WAITING, OP_STATUS_QUEUED} then
        (if op_end_timestamp opc \<noteq> None then (Some (AssertionError ''not op.end_timestamp''), job)
         else (None, job))
      else
        (let job' = set_ctx_op opctx (opc\<lparr>op_end_timestamp := Some (now_op_end P)\<rparr>) job in
         if op_status opc = OP_STATUS_CANCELING then
           (if list_ex (\<lambda>i. op_status i \<noteq> OP_STATUS_CANCELING) (drop (ctx_index opctx) (ops job'))
              then (Some (AssertionError ''all opcodes from this one on are canceling''), job')
            else (None, job'))
         else if op_status opc \<notin> OPS_FINALIZED then
           (Some (AssertionError ''op.status in constants.OPS_FINALIZED''), job')
         else (None, job')))"

text \<open>
  The last statements of \<^verbatim>\<open>__call__\<close>: the assertion on a waiting job, and the
  result WAITDEP or DEFER.
\<close>

definition call_return :: "bool \<Rightarrow> job_queue \<times> queued_job \<Rightarrow> (error + processor_result) \<times> job_queue \<times> queued_job" where
  "call_return waitjob st =
     (case st of (q, job) \<Rightarrow>
      if \<not> (\<not> waitjob \<or> JobWaiting q job) then
        (Inl (AssertionError ''not waitjob or queue.depmgr.JobWaiting(job)''), q, job)
      else if waitjob then (Inr WAITDEP, q, job)
      else (Inr DEFER, q, job))"

text \<open>
  The part that looks at the opcode's status, once the opcode has been dealt with: the
  branches for QUEUED, for WAITING (or a waiting job), and for an opcode that is done.
  \<open>opcount\<close> is \<^verbatim>\<open>len(job.ops)\<close>, taken when the call began.
\<close>

definition call_finish ::
  "externals \<Rightarrow> constants \<Rightarrow> job_processor \<Rightarrow> nat \<Rightarrow> bool \<Rightarrow> op_exec_context
     \<Rightarrow> job_queue \<times> queued_job \<Rightarrow> (error + processor_result) \<times> job_queue \<times> queued_job" where
  "call_finish X c P opcount waitjob opctx st =
     (case st of (q, job) \<Rightarrow>
      let opc = ctx_op opctx job in
      if op_status opc = OP_STATUS_QUEUED then
        (if waitjob then (Inl (AssertionError ''not waitjob''), q, job)
         else
           (let job1 = job\<lparr>cur_opctx := None\<rparr> in
            if CalcStatus job1 \<noteq> JOB_STATUS_QUEUED then
              (Inl (AssertionError ''job.CalcStatus() == constants.JOB_STATUS_QUEUED''), q, job1)
            else call_return waitjob (q, job1)))
      else if op_status opc = OP_STATUS_WAITING \<or> waitjob then
        (case (if \<not> waitjob then
                 (case CheckPriorityIncrease c opctx opc of
                    (True, opctx', opc') \<Rightarrow>
                      (case UpdateJobUnlocked X q (set_ctx_op opctx opc' job) of
                         (e, q') \<Rightarrow> (e, opctx', q', set_ctx_op opctx opc' job))
                  | (False, opctx', opc') \<Rightarrow> (None, opctx', q, job))
               else (None, opctx, q, job)) of
           (Some e, opctx1, q1, job1) \<Rightarrow> (Inl e, q1, job1)
         | (None, opctx1, q1, job1) \<Rightarrow>
             (let job2 = job1\<lparr>cur_opctx := Some opctx1\<rparr>;
                  opc2 = ctx_op opctx1 job2
              in if \<not> (op_priority opc2 \<le> OP_PRIO_LOWEST c \<and> op_priority opc2 \<ge> OP_PRIO_HIGHEST c) then
                   (Inl (AssertionError ''op.priority within OP_PRIO_HIGHEST and OP_PRIO_LOWEST''),
                    q1, job2)
                 else if CalcStatus job2 \<noteq> JOB_STATUS_WAITING then
                   (Inl (AssertionError ''job.CalcStatus() == constants.JOB_STATUS_WAITING''), q1, job2)
                 else call_return waitjob (q1, job2)))
      else
        (if \<not> (ctx_index opctx = 0 \<or>
                list_all (\<lambda>i. op_status i = OP_STATUS_SUCCESS) (take (ctx_index opctx) (ops job))) then
           (Inl (AssertionError ''all opcodes so far have been successful''), q, job)
         else
           (let job1 = job\<lparr>cur_opctx := None\<rparr> in
            case (if op_status opc = OP_STATUS_SUCCESS then (None, False, job1)
                  else if op_status opc = OP_STATUS_ERROR then
                    (if \<not> GetEncodedError (op_result (ops job1 ! ctx_index opctx)) then
                       (Some (AssertionError ''errors.GetEncodedError(job.ops[opctx.index].result)''),
                        True, job1)
                     else
                       (case MarkUnfinishedOps OP_STATUS_ERROR
                               (EncodeOpError (GenericErrorExc ''OpExecError''
                                  (Fmt ''Preceding opcode failed'' []))) job1 of
                          (Some e, job2) \<Rightarrow> (Some e, True, job2)
                        | (None, job2) \<Rightarrow>
                            (if \<not> list_all (\<lambda>i. op_status i = OP_STATUS_ERROR \<and>
                                                GetEncodedError (op_result i))
                                   (drop (ctx_index opctx) (ops job2)) then
                               (Some (AssertionError ''all opcodes from this one on have failed''),
                                True, job2)
                             else (None, True, job2))))
                  else if op_status opc = OP_STATUS_CANCELING then
                    (case MarkUnfinishedOps OP_STATUS_CANCELED
                            (JStr ''Job canceled by request'') job1 of
                       (e, job2) \<Rightarrow> (e, True, job2))
                  else (Some (ProgrammerError (Fmt ''Unknown status %s'' [AStatus (op_status opc)])),
                        False, job1)) of
              (Some e, finalize, job2) \<Rightarrow> (Inl e, q, job2)
            | (None, finalize, job2) \<Rightarrow>
                (let finalize' = (finalize \<or> int (ctx_index opctx) = int opcount - 1);
                     job3 = (if finalize' then Finalize (now_finalize P) job2 else job2)
                 in case UpdateJobUnlocked X q job3 of
                      (Some e, q') \<Rightarrow> (Inl e, q', job3)
                    | (None, q') \<Rightarrow>
                        (if waitjob then (Inl (AssertionError ''not waitjob''), q', job3)
                         else if finalize' then (Inr FINISHED, q', job3)
                         else call_return waitjob (q', job3))))))"

text \<open>
  The whole of \<^verbatim>\<open>__call__\<close>, in two steps. \<open>call_opcode\<close> chooses the opcode
  and deals with it: it ends with an error, with FINISHED for a finalized job, or with
  the context and the flag \<^verbatim>\<open>waitjob\<close>; an opcode that is CANCELING when it is
  chosen skips the preparation and the execution. Then \<open>call_finish\<close> looks at the
  opcode's status. The assertion of the \<^verbatim>\<open>finally\<close> clause comes last, whatever
  happened before.
\<close>

definition call_opcode ::
  "externals \<Rightarrow> constants \<Rightarrow> job_processor \<Rightarrow> job_queue \<times> queued_job
     \<Rightarrow> (error + processor_result + bool \<times> op_exec_context) \<times> job_queue \<times> queued_job" where
  "call_opcode X c P st =
     (case st of (q, job) \<Rightarrow>
      case call_choose c P job of
        (Inl e, job1) \<Rightarrow> (Inl e, q, job1)
      | (Inr (Inl r), job1) \<Rightarrow> (Inr (Inl r), q, job1)
      | (Inr (Inr opctx), job1) \<Rightarrow>
          (if op_status (ctx_op opctx job1) \<noteq> OP_STATUS_CANCELING then
             (case call_wait X c P opctx (q, job1) of
                (Inl e, opctx2, q2, job2) \<Rightarrow> (Inl e, q2, job2)
              | (Inr waitjob, opctx2, q2, job2) \<Rightarrow>
                  (case call_exec X P waitjob opctx2 (q2, job2) of
                     (Some e, opctx3, q3, job3) \<Rightarrow> (Inl e, q3, job3)
                   | (None, opctx3, q3, job3) \<Rightarrow>
                       (case call_op_end P opctx3 job3 of
                          (Some e, job4) \<Rightarrow> (Inl e, q3, job4)
                        | (None, job4) \<Rightarrow> (Inr (Inr (waitjob, opctx3)), q3, job4))))
           else (Inr (Inr (False, opctx)), q, job1)))"

definition call_body ::
  "externals \<Rightarrow> constants \<Rightarrow> job_processor \<Rightarrow> job_queue \<times> queued_job
     \<Rightarrow> (error + processor_result) \<times> job_queue \<times> queued_job" where
  "call_body X c P st =
     (let opcount = length (ops (snd st)) in
      case call_opcode X c P st of
        (Inl e, q1, job1) \<Rightarrow> (Inl e, q1, job1)
      | (Inr (Inl r), q1, job1) \<Rightarrow> (Inr r, q1, job1)
      | (Inr (Inr (waitjob, opctx)), q1, job1) \<Rightarrow>
          call_finish X c P opcount waitjob opctx (q1, job1))"

definition JobProcessor_call ::
  "externals \<Rightarrow> constants \<Rightarrow> job_processor \<Rightarrow> job_queue \<times> queued_job
     \<Rightarrow> (error + processor_result) \<times> job_queue \<times> queued_job" where
  "JobProcessor_call X c P st =
     (case call_body X c P st of
        (r, q', job') \<Rightarrow>
          (if \<not> writable job' then
             (Inl (AssertionError ''Job became read-only while being processed''), q', job')
           else (r, q', job')))"

text \<open>
  The state of a job between two calls of the processor: the opcodes before the stashed
  context's opcode, or before the iterator's position when nothing is stashed, are all
  SUCCESS. It holds of every job as loaded or created, whose iterator is not yet made.
\<close>

definition job_cursor_ok :: "queued_job \<Rightarrow> bool" where
  "job_cursor_ok job \<longleftrightarrow>
     (case cur_opctx job of
        Some opctx \<Rightarrow>
          ctx_index opctx < length (ops job) \<and>
          list_all (\<lambda>i. op_status i = SUCCESS) (take (ctx_index opctx) (ops job))
      | None \<Rightarrow>
          list_all (\<lambda>i. op_status i = SUCCESS)
            (take (case ops_iter job of None \<Rightarrow> 0 | Some p \<Rightarrow> p) (ops job)))"

text \<open>
  What holds of a job while its opcode at index \<open>i\<close> is being dealt with: the
  opcodes before it are SUCCESS, those after it QUEUED or CANCELING.
\<close>

definition processing :: "nat \<Rightarrow> queued_job \<Rightarrow> bool" where
  "processing i job \<longleftrightarrow>
     i < length (ops job) \<and>
     list_all (\<lambda>x. op_status x = SUCCESS) (take i (ops job)) \<and>
     list_all (\<lambda>x. op_status x \<in> {QUEUED, CANCELING}) (drop (Suc i) (ops job)) \<and>
     writable job \<and> \<not> archived job"

text \<open>What holds during the execution of the opcode of a context.\<close>

definition executing :: "op_exec_context \<Rightarrow> job_queue \<times> queued_job \<Rightarrow> bool" where
  "executing opctx st \<longleftrightarrow>
     queue_filelock (fst st) \<and> processing (ctx_index opctx) (snd st) \<and>
     op_status (ctx_op opctx (snd st)) \<in> {WAITING, RUNNING, CANCELING}"

text \<open>
  What holds once the opcode of a context has been dealt with: the queue is open, the
  opcodes around it are as before, and when it has failed its result is an encoded
  error.
\<close>

definition dealt_with :: "op_exec_context \<Rightarrow> job_queue \<times> queued_job \<Rightarrow> bool" where
  "dealt_with opctx st \<longleftrightarrow>
     queue_filelock (fst st) \<and> processing (ctx_index opctx) (snd st) \<and>
     (op_status (ctx_op opctx (snd st)) = ERROR \<longrightarrow>
        GetEncodedError (op_result (ctx_op opctx (snd st))))"

text \<open>
  A processor whose executor announces the start of the opcode, logs one message and
  fails.
\<close>

definition example_processor :: job_processor where
  "example_processor =
     \<lparr>timeout_strategy_factory = [1, 2, 4],
      opexec_fn = (\<lambda>opc timeout.
         ([NotifyStart (120, 0), Feedback (121, 0) ''message'' (JStr ''starting'')],
          Raises (Exception_raised (OtherExc ''boom'')))),
      now_waitlock = (110, 0), now_cancel = (115, 0), now_op_end = (130, 0),
      now_finalize = (140, 0)\<rparr>"

section \<open>Properties of the derived status\<close>

lemma CalcStatus_loop_stop:
  "find stops_scan xs = Some opc \<Longrightarrow> CalcStatus_loop xs st b = (op_status opc, False)"
  by (induction xs arbitrary: st b) (auto simp: stops_scan_def split: if_splits)

lemma CalcStatus_loop_no_stop:
  "find stops_scan xs = None \<Longrightarrow>
   CalcStatus_loop xs st b =
     (if filter waiting_or_running xs = [] then st
      else op_status (last (filter waiting_or_running xs)),
      b \<and> (\<forall>opc \<in> set xs. op_status opc = SUCCESS))"
proof (induction xs arbitrary: st b)
  case Nil
  then show ?case by simp
next
  case (Cons x xs)
  then have rest: "find stops_scan xs = None" and here: "\<not> stops_scan x"
    by (auto split: if_splits)
  show ?case
  proof (cases "op_status x")
    case QUEUED
    then have "\<not> waiting_or_running x" by (simp add: waiting_or_running_def)
    with QUEUED Cons.IH [OF rest] show ?thesis by simp
  next
    case WAITING
    then have "waiting_or_running x" by (simp add: waiting_or_running_def)
    with WAITING Cons.IH [OF rest] show ?thesis by simp
  next
    case RUNNING
    then have "waiting_or_running x" by (simp add: waiting_or_running_def)
    with RUNNING Cons.IH [OF rest] show ?thesis by simp
  next
    case SUCCESS
    then have "\<not> waiting_or_running x" by (simp add: waiting_or_running_def)
    with SUCCESS Cons.IH [OF rest] show ?thesis by simp
  next
    case CANCELING
    with here show ?thesis by (simp add: stops_scan_def)
  next
    case CANCELED
    with here show ?thesis by (simp add: stops_scan_def)
  next
    case ERROR
    with here show ?thesis by (simp add: stops_scan_def)
  qed
qed

lemma find_after_takeWhile:
  "P y \<Longrightarrow> find P (takeWhile (\<lambda>x. \<not> P x) xs @ y # ys) = Some y"
  by (induction xs) auto

text \<open>
  Claim C1. For a job with at least one opcode, \<^verbatim>\<open>CalcStatus\<close> follows the
  specification's algorithm: when some opcode is CANCELING, ERROR or CANCELED, the result
  is the status of the first such opcode, whatever follows it; otherwise, when some
  opcode is WAITING or RUNNING, the result is the status of the last such opcode; when
  every opcode is SUCCESS the result is SUCCESS; when every opcode is QUEUED the result
  is QUEUED.
\<close>

theorem CalcStatus_follows_spec:
  assumes "ops job \<noteq> []"
  shows "(\<forall>opc rest. find stops_scan (ops job) = Some opc \<longrightarrow>
            CalcStatus job = op_status opc \<and>
            CalcStatus (job\<lparr>ops := takeWhile (\<lambda>x. \<not> stops_scan x) (ops job) @ opc # rest\<rparr>)
              = op_status opc) \<and>
         (find stops_scan (ops job) = None \<and> filter waiting_or_running (ops job) \<noteq> [] \<longrightarrow>
            CalcStatus job = op_status (last (filter waiting_or_running (ops job)))) \<and>
         ((\<forall>opc \<in> set (ops job). op_status opc = SUCCESS) \<longrightarrow> CalcStatus job = SUCCESS) \<and>
         ((\<forall>opc \<in> set (ops job). op_status opc = QUEUED) \<longrightarrow> CalcStatus job = QUEUED)"
proof (intro conjI allI impI)
  fix opc rest
  assume f: "find stops_scan (ops job) = Some opc"
  then show "CalcStatus job = op_status opc"
    by (simp add: CalcStatus_def CalcStatus_loop_stop)
  from f have s: "stops_scan opc"
    by (auto simp: find_Some_iff)
  have "find stops_scan (takeWhile (\<lambda>x. \<not> stops_scan x) (ops job) @ opc # rest) = Some opc"
    using s by (rule find_after_takeWhile)
  then show "CalcStatus (job\<lparr>ops := takeWhile (\<lambda>x. \<not> stops_scan x) (ops job) @ opc # rest\<rparr>)
      = op_status opc"
    by (simp add: CalcStatus_def CalcStatus_loop_stop)
next
  assume "find stops_scan (ops job) = None \<and> filter waiting_or_running (ops job) \<noteq> []"
  then show "CalcStatus job = op_status (last (filter waiting_or_running (ops job)))"
    by (auto simp: CalcStatus_def CalcStatus_loop_no_stop waiting_or_running_def)
next
  assume a: "\<forall>opc \<in> set (ops job). op_status opc = SUCCESS"
  then have "find stops_scan (ops job) = None"
    by (auto simp: find_None_iff stops_scan_def)
  with a show "CalcStatus job = SUCCESS"
    by (simp add: CalcStatus_def CalcStatus_loop_no_stop)
next
  assume a: "\<forall>opc \<in> set (ops job). op_status opc = QUEUED"
  then have n: "find stops_scan (ops job) = None"
    by (auto simp: find_None_iff stops_scan_def)
  from a have w: "filter waiting_or_running (ops job) = []"
    by (auto simp: filter_empty_conv waiting_or_running_def)
  from assms obtain x where "x \<in> set (ops job)"
    by (cases "ops job") auto
  with a have "\<not> (\<forall>opc \<in> set (ops job). op_status opc = SUCCESS)"
    by auto
  with n w show "CalcStatus job = QUEUED"
    by (simp add: CalcStatus_def CalcStatus_loop_no_stop)
qed

theorem CalcStatus_follows_spec_witness:
  "ops (example_job [SUCCESS, ERROR, WAITING]) \<noteq> [] \<and>
   find stops_scan (ops (example_job [SUCCESS, ERROR, WAITING])) = Some (example_op ERROR) \<and>
   CalcStatus (example_job [SUCCESS, ERROR, WAITING]) = ERROR \<and>
   CalcStatus ((example_job [SUCCESS, ERROR, WAITING])
       \<lparr>ops := takeWhile (\<lambda>x. \<not> stops_scan x) (ops (example_job [SUCCESS, ERROR, WAITING]))
                 @ example_op ERROR # [example_op CANCELED]\<rparr>) = ERROR \<and>
   find stops_scan (ops (example_job [WAITING, RUNNING, QUEUED])) = None \<and>
   filter waiting_or_running (ops (example_job [WAITING, RUNNING, QUEUED])) \<noteq> [] \<and>
   CalcStatus (example_job [WAITING, RUNNING, QUEUED]) = RUNNING \<and>
   CalcStatus (example_job [SUCCESS, SUCCESS]) = SUCCESS \<and>
   CalcStatus (example_job [QUEUED, QUEUED]) = QUEUED"
proof -
  let ?a = "example_job [SUCCESS, ERROR, WAITING]"
  let ?b = "example_job [WAITING, RUNNING, QUEUED]"
  let ?c = "example_job [SUCCESS, SUCCESS]"
  let ?d = "example_job [QUEUED, QUEUED]"
  have na: "ops ?a \<noteq> []" and nb: "ops ?b \<noteq> []" and nc: "ops ?c \<noteq> []" and nd: "ops ?d \<noteq> []"
    by (simp_all add: example_job_def)
  have fa: "find stops_scan (ops ?a) = Some (example_op ERROR)"
    by (simp add: example_job_def example_op_def stops_scan_def)
  have fb: "find stops_scan (ops ?b) = None"
    by (simp add: example_job_def example_op_def stops_scan_def)
  have wb: "filter waiting_or_running (ops ?b) \<noteq> []"
    by (simp add: example_job_def example_op_def waiting_or_running_def)
  have lb: "op_status (last (filter waiting_or_running (ops ?b))) = RUNNING"
    by (simp add: example_job_def example_op_def waiting_or_running_def)
  have sc: "\<forall>opc \<in> set (ops ?c). op_status opc = SUCCESS"
    by (simp add: example_job_def example_op_def)
  have qd: "\<forall>opc \<in> set (ops ?d). op_status opc = QUEUED"
    by (simp add: example_job_def example_op_def)
  have e: "op_status (example_op ERROR) = ERROR"
    by (simp add: example_op_def)
  from CalcStatus_follows_spec [OF na] fa e
  have 1: "CalcStatus ?a = ERROR"
    and 2: "CalcStatus (?a\<lparr>ops := takeWhile (\<lambda>x. \<not> stops_scan x) (ops ?a)
                 @ example_op ERROR # [example_op CANCELED]\<rparr>) = ERROR"
    by auto
  from CalcStatus_follows_spec [OF nb] fb wb lb have 3: "CalcStatus ?b = RUNNING" by auto
  from CalcStatus_follows_spec [OF nc] sc have 4: "CalcStatus ?c = SUCCESS" by blast
  from CalcStatus_follows_spec [OF nd] qd have 5: "CalcStatus ?d = QUEUED" by blast
  from na fa 1 2 fb wb 3 4 5 show ?thesis by blast
qed

section \<open>Properties of the job priority\<close>

text \<open>
  Claim C9. \<^verbatim>\<open>CalcPriority\<close> returns the least priority among the opcodes that are
  not finalized, and the default priority when every opcode is finalized; and
  \<^verbatim>\<open>_EnqueueJobsUnlocked\<close> hands each job to the worker pool at that priority: it
  adds to the pool, in order, one task for each job, whose argument is the job, whose
  priority is the job's \<^verbatim>\<open>CalcPriority\<close> and whose task id is the job's id, and
  leaves the tasks already in the pool and the rest of the queue as they are.
\<close>

theorem CalcPriority_min_pending:
  "CalcPriority c job =
     (if \<forall>opc \<in> set (ops job). op_status opc \<in> OPS_FINALIZED then OP_PRIO_DEFAULT c
      else Min (op_priority ` {opc \<in> set (ops job). op_status opc \<notin> OPS_FINALIZED})) \<and>
   EnqueueJobsUnlocked c q jobs =
     q\<lparr>wpool := wpool q @
          map (\<lambda>j. \<lparr>task_args = job_id j, task_priority = CalcPriority c j, task_id = job_id j\<rparr>)
            jobs\<rparr>"
proof
  let ?p = "filter (\<lambda>opc. op_status opc \<notin> OPS_FINALIZED) (ops job)"
  show "CalcPriority c job =
     (if \<forall>opc \<in> set (ops job). op_status opc \<in> OPS_FINALIZED then OP_PRIO_DEFAULT c
      else Min (op_priority ` {opc \<in> set (ops job). op_status opc \<notin> OPS_FINALIZED}))"
  proof (cases "?p = []")
    case True
    then have "\<forall>opc \<in> set (ops job). op_status opc \<in> OPS_FINALIZED"
      by (auto simp: filter_empty_conv)
    with True show ?thesis by (simp add: CalcPriority_def)
  next
    case False
    then have ne: "map op_priority ?p \<noteq> []" by simp
    from False have nf: "\<not> (\<forall>opc \<in> set (ops job). op_status opc \<in> OPS_FINALIZED)"
      by (auto simp: filter_empty_conv)
    have "set (map op_priority ?p) = op_priority ` {opc \<in> set (ops job). op_status opc \<notin> OPS_FINALIZED}"
      by auto
    with min_list_Min [OF ne] have "min_list (map op_priority ?p)
        = Min (op_priority ` {opc \<in> set (ops job). op_status opc \<notin> OPS_FINALIZED})"
      by simp
    with nf False show ?thesis
      unfolding CalcPriority_def Let_def by auto
  qed
next
  have "map (\<lambda>(a, p, i). \<lparr>task_args = a, task_priority = p, task_id = i\<rparr>)
             (zip (map job_id jobs) (zip (map (CalcPriority c) jobs) (map job_id jobs)))
        = map (\<lambda>j. \<lparr>task_args = job_id j, task_priority = CalcPriority c j, task_id = job_id j\<rparr>)
            jobs"
    by (induction jobs) auto
  then show "EnqueueJobsUnlocked c q jobs =
     q\<lparr>wpool := wpool q @
          map (\<lambda>j. \<lparr>task_args = job_id j, task_priority = CalcPriority c j, task_id = job_id j\<rparr>)
            jobs\<rparr>"
    by (simp add: EnqueueJobsUnlocked_def AddManyTasks_def)
qed

theorem CalcPriority_min_pending_witness:
  "CalcPriority ganeti_constants example_job_priorities = -3 \<and>
   CalcPriority ganeti_constants ((example_job [SUCCESS, ERROR])\<lparr>job_id := 2\<rparr>) = 0 \<and>
   wpool (EnqueueJobsUnlocked ganeti_constants example_queue
      [example_job_priorities, (example_job [SUCCESS, ERROR])\<lparr>job_id := 2\<rparr>])
     = [\<lparr>task_args = 1, task_priority = -3, task_id = 1\<rparr>,
        \<lparr>task_args = 2, task_priority = 0, task_id = 2\<rparr>]"
proof -
  let ?c = ganeti_constants
  let ?b = "(example_job [SUCCESS, ERROR])\<lparr>job_id := 2\<rparr>"
  let ?jobs = "[example_job_priorities, ?b]"
  have pend: "{opc \<in> set (ops example_job_priorities). op_status opc \<notin> OPS_FINALIZED}
      = {example_op WAITING\<lparr>op_priority := 4\<rparr>, example_op QUEUED\<lparr>op_priority := -3\<rparr>}"
    by (auto simp: example_job_priorities_def example_op_def OPS_FINALIZED_def)
  have nf: "\<not> (\<forall>opc \<in> set (ops example_job_priorities). op_status opc \<in> OPS_FINALIZED)"
    by (simp add: example_job_priorities_def example_op_def OPS_FINALIZED_def)
  have fin: "\<forall>opc \<in> set (ops ?b). op_status opc \<in> OPS_FINALIZED"
    by (simp add: example_job_def example_op_def OPS_FINALIZED_def)
  have ids: "job_id example_job_priorities = 1" "job_id ?b = 2"
    by (simp_all add: example_job_priorities_def example_job_def)
  from CalcPriority_min_pending [of ?c example_job_priorities example_queue ?jobs] nf pend
  have 1: "CalcPriority ?c example_job_priorities = -3"
    by simp
  from CalcPriority_min_pending [of ?c ?b example_queue ?jobs] fin
  have 2: "CalcPriority ?c ?b = 0"
    by (simp add: ganeti_constants_def)
  from CalcPriority_min_pending [of ?c example_job_priorities example_queue ?jobs] 1 2 ids
  have 3: "wpool (EnqueueJobsUnlocked ?c example_queue ?jobs)
     = [\<lparr>task_args = 1, task_priority = -3, task_id = 1\<rparr>,
        \<lparr>task_args = 2, task_priority = 0, task_id = 2\<rparr>]"
    by (simp add: example_queue_def)
  from 1 2 3 show ?thesis by simp
qed

section \<open>Properties of the priority increase\<close>

lemma Peek_None_iff:
  "fst (Peek w) = None \<longleftrightarrow> ts_next w = None \<and> ts_fn w = []"
  by (cases "ts_fn w") (auto simp: Peek_def Advance_def Let_def)

text \<open>
  Claim C4. \<^verbatim>\<open>CheckPriorityIncrease\<close> returns true exactly when \<^verbatim>\<open>Peek()\<close> of the
  timeout strategy returns None and the opcode's priority is above the highest
  priority; then the opcode's priority has gone down by exactly one and the timeout
  strategy is a fresh one from the factory. In every other case it returns false and
  the opcode is unchanged.
\<close>

theorem CheckPriorityIncrease_iff:
  "(fst (CheckPriorityIncrease c opctx opc) \<longleftrightarrow>
      fst (Peek (ctx_timeout_strategy opctx)) = None \<and> op_priority opc > OP_PRIO_HIGHEST c) \<and>
   (fst (CheckPriorityIncrease c opctx opc) \<longrightarrow>
      snd (snd (CheckPriorityIncrease c opctx opc)) = opc\<lparr>op_priority := op_priority opc - 1\<rparr> \<and>
      op_priority (snd (snd (CheckPriorityIncrease c opctx opc))) = op_priority opc - 1 \<and>
      ctx_timeout_strategy (fst (snd (CheckPriorityIncrease c opctx opc)))
        = \<lparr>ts_fn = ctx_timeout_strategy_factory opctx, ts_next = None\<rparr>) \<and>
   (\<not> fst (CheckPriorityIncrease c opctx opc) \<longrightarrow>
      snd (snd (CheckPriorityIncrease c opctx opc)) = opc)"
  by (auto simp: CheckPriorityIncrease_def ResetTimeoutStrategy_def Let_def split: prod.splits)

theorem CheckPriorityIncrease_iff_witness:
  "fst (Peek (ctx_timeout_strategy (example_opctx []))) = None \<and>
   op_priority (example_op WAITING) > OP_PRIO_HIGHEST ganeti_constants \<and>
   fst (CheckPriorityIncrease ganeti_constants (example_opctx []) (example_op WAITING)) \<and>
   op_priority (snd (snd (CheckPriorityIncrease ganeti_constants (example_opctx [])
      (example_op WAITING)))) = -1 \<and>
   ctx_timeout_strategy (fst (snd (CheckPriorityIncrease ganeti_constants (example_opctx [])
      (example_op WAITING)))) = \<lparr>ts_fn = [1, 2, 4], ts_next = None\<rparr> \<and>
   fst (Peek (ctx_timeout_strategy (example_opctx [4]))) = Some 4 \<and>
   \<not> fst (CheckPriorityIncrease ganeti_constants (example_opctx [4]) (example_op WAITING)) \<and>
   snd (snd (CheckPriorityIncrease ganeti_constants (example_opctx [4]) (example_op WAITING)))
     = example_op WAITING \<and>
   \<not> fst (CheckPriorityIncrease ganeti_constants (example_opctx [])
      (example_op WAITING\<lparr>op_priority := -20\<rparr>)) \<and>
   snd (snd (CheckPriorityIncrease ganeti_constants (example_opctx [])
      (example_op WAITING\<lparr>op_priority := -20\<rparr>))) = example_op WAITING\<lparr>op_priority := -20\<rparr>"
proof -
  let ?c = ganeti_constants
  have p0: "fst (Peek (ctx_timeout_strategy (example_opctx []))) = None"
    by (simp add: example_opctx_def Peek_def Advance_def)
  have p4: "fst (Peek (ctx_timeout_strategy (example_opctx [4]))) = Some 4"
    by (simp add: example_opctx_def Peek_def Advance_def)
  have hi: "op_priority (example_op WAITING) > OP_PRIO_HIGHEST ?c"
    by (simp add: example_op_def ganeti_constants_def)
  have pr: "op_priority (example_op WAITING) = 0"
    by (simp add: example_op_def)
  have fa: "ctx_timeout_strategy_factory (example_opctx []) = [1, 2, 4]"
    by (simp add: example_opctx_def)
  have lo: "\<not> op_priority (example_op WAITING\<lparr>op_priority := -20\<rparr>) > OP_PRIO_HIGHEST ?c"
    by (simp add: ganeti_constants_def)
  from CheckPriorityIncrease_iff [of ?c "example_opctx []" "example_op WAITING"] p0 hi pr fa
  have 1: "fst (CheckPriorityIncrease ?c (example_opctx []) (example_op WAITING)) \<and>
     op_priority (snd (snd (CheckPriorityIncrease ?c (example_opctx []) (example_op WAITING)))) = -1 \<and>
     ctx_timeout_strategy (fst (snd (CheckPriorityIncrease ?c (example_opctx [])
        (example_op WAITING)))) = \<lparr>ts_fn = [1, 2, 4], ts_next = None\<rparr>"
    by simp
  from CheckPriorityIncrease_iff [of ?c "example_opctx [4]" "example_op WAITING"] p4
  have 2: "\<not> fst (CheckPriorityIncrease ?c (example_opctx [4]) (example_op WAITING)) \<and>
     snd (snd (CheckPriorityIncrease ?c (example_opctx [4]) (example_op WAITING)))
       = example_op WAITING"
    by simp
  from CheckPriorityIncrease_iff [of ?c "example_opctx []" "example_op WAITING\<lparr>op_priority := -20\<rparr>"] lo
  have 3: "\<not> fst (CheckPriorityIncrease ?c (example_opctx [])
        (example_op WAITING\<lparr>op_priority := -20\<rparr>)) \<and>
     snd (snd (CheckPriorityIncrease ?c (example_opctx [])
        (example_op WAITING\<lparr>op_priority := -20\<rparr>))) = example_op WAITING\<lparr>op_priority := -20\<rparr>"
    by simp
  from p0 hi 1 p4 2 3 show ?thesis by blast
qed

section \<open>Properties of the dependency manager\<close>

lemma Restore_writable:
  "Restore X c state w arch = Inr job \<Longrightarrow> writable job = w \<and> archived job = arch"
  by (auto simp: Restore_def InitInMemory_def split: sum.splits)

lemma SafeLoadJobFromDisk_read_only:
  "SafeLoadJobFromDisk X c q jid try_archived (Some False) = Some job \<Longrightarrow> \<not> writable job"
  by (auto simp: SafeLoadJobFromDisk_def LoadJobFromDisk_def Let_def
      dest: Restore_writable split: option.splits sum.splits if_splits prod.splits)

lemma GetJobStatusForDependencies_cases:
  "GetJobStatusForDependencies X c q jid =
     (case SafeLoadJobFromDisk X c q jid True (Some False) of
        None \<Rightarrow> Inl (AttributeError ''NoneType object has no attribute writable'')
      | Some job \<Rightarrow> Inr (CalcStatus job))"
  by (auto simp: GetJobStatusForDependencies_def dest: SafeLoadJobFromDisk_read_only
      split: option.splits)

text \<open>
  Claim C2. The queue gives its dependency manager \<^verbatim>\<open>_GetJobStatusForDependencies\<close> as
  the function that reads a dependency's status. With it, for a job, a dependency job id
  and a list of allowed statuses of the types the method asserts (job ids, final
  statuses), \<^verbatim>\<open>CheckAndRegister\<close> returns ERROR when the dependency is the job itself.
  Otherwise, when the dependency's job file is found, it returns the first of these that
  applies: WAIT, with the job added to the dependency's waiters, when the status is not
  final; CANCEL when the status is CANCELED and CANCELED is not allowed; CONTINUE when
  the list is empty or holds the status; WRONGSTATUS otherwise; on a final status the
  job is no longer among the dependency's waiters. When the job file is not found, in
  the queue directory or the archive, the status function does not raise JobLost, as its
  documentation says it does: its assertion reads the attribute \<^verbatim>\<open>writable\<close> of
  \<^verbatim>\<open>None\<close> first, and \<^verbatim>\<open>CheckAndRegister\<close>, which handles JobLost only, raises
  AttributeError instead of returning ERROR, leaving the waiters as they were.
\<close>

theorem CheckAndRegister_missing_dependency:
  assumes "TJobId X (job_id job)" and "TJobId X dep_job_id"
    and "set dep_status \<subseteq> JOBS_FINALIZED"
  shows
   "(\<forall>err. GetJobStatusForDependencies X c q dep_job_id \<noteq> Inl (JobLost err)) \<and>
    (dep_job_id = job_id job \<longrightarrow>
       (\<exists>msg. CheckAndRegister X (GetJobStatusForDependencies X c q) ws job dep_job_id dep_status
          = (Inr (DEP_ERROR, msg), ws))) \<and>
    (dep_job_id \<noteq> job_id job \<longrightarrow>
       (SafeLoadJobFromDisk X c q dep_job_id True (Some False) = None \<longrightarrow>
          CheckAndRegister X (GetJobStatusForDependencies X c q) ws job dep_job_id dep_status
            = (Inl (AttributeError ''NoneType object has no attribute writable''), ws)) \<and>
       (\<forall>dep_job. SafeLoadJobFromDisk X c q dep_job_id True (Some False) = Some dep_job \<longrightarrow>
          (CalcStatus dep_job \<notin> JOBS_FINALIZED \<longrightarrow>
             (\<exists>msg. CheckAndRegister X (GetJobStatusForDependencies X c q) ws job dep_job_id dep_status
                = (Inr (WAIT, msg),
                   ws(dep_job_id \<mapsto>
                        insert (job_id job) (case ws dep_job_id of None \<Rightarrow> {} | Some w \<Rightarrow> w))))) \<and>
          (CalcStatus dep_job \<in> JOBS_FINALIZED \<longrightarrow>
             (\<exists>msg. CheckAndRegister X (GetJobStatusForDependencies X c q) ws job dep_job_id dep_status
                = (Inr (if CalcStatus dep_job = CANCELED \<and> CANCELED \<notin> set dep_status then CANCEL
                        else if dep_status = [] \<or> CalcStatus dep_job \<in> set dep_status then CONTINUE
                        else WRONGSTATUS, msg),
                   ws(dep_job_id \<mapsto>
                        (case ws dep_job_id of None \<Rightarrow> {} | Some w \<Rightarrow> w) - {job_id job}))))))"
proof -
  from assms(3) have la: "list_all (\<lambda>s. s \<in> JOBS_FINALIZED) dep_status"
    by (auto simp: list_all_iff)
  show ?thesis
    using assms(1,2) la
    by (auto simp: CheckAndRegister_def GetJobStatusForDependencies_cases Let_def
        split: option.splits)
qed

theorem CheckAndRegister_missing_dependency_witness:
  "TJobId example_externals (job_id (example_job [QUEUED])) \<and>
   TJobId example_externals 9 \<and> set [SUCCESS] \<subseteq> JOBS_FINALIZED \<and>
   SafeLoadJobFromDisk example_externals ganeti_constants
     (example_queue_with_file example_job_state) 9 True (Some False) = None \<and>
   CheckAndRegister example_externals
     (GetJobStatusForDependencies example_externals ganeti_constants
        (example_queue_with_file example_job_state))
     Map.empty (example_job [QUEUED]) 9 [SUCCESS]
     = (Inl (AttributeError ''NoneType object has no attribute writable''), Map.empty) \<and>
   (\<exists>msg. CheckAndRegister example_externals
     (GetJobStatusForDependencies example_externals ganeti_constants
        (example_queue_with_file example_job_state))
     Map.empty (example_job [QUEUED]) 1 [SUCCESS] = (Inr (DEP_ERROR, msg), Map.empty)) \<and>
   (\<exists>msg. CheckAndRegister example_externals
     (GetJobStatusForDependencies example_externals ganeti_constants
        (example_queue_with_file example_job_state))
     Map.empty (example_job [QUEUED]) 7 [SUCCESS] = (Inr (WAIT, msg), [7 \<mapsto> {1}]))"
proof -
  let ?X = example_externals and ?c = ganeti_constants and ?j = "example_job [QUEUED]"
  let ?q = "example_queue_with_file example_job_state"
  have j: "TJobId ?X (job_id ?j)" and id: "job_id ?j = 1"
    by (simp_all add: example_externals_def example_job_def)
  have d: "\<And>n. 0 \<le> n \<Longrightarrow> TJobId ?X n"
    by (simp add: example_externals_def)
  have s: "set [SUCCESS] \<subseteq> JOBS_FINALIZED"
    by (simp add: JOBS_FINALIZED_def)
  have l9: "SafeLoadJobFromDisk ?X ?c ?q 9 True (Some False) = None"
    by (simp add: SafeLoadJobFromDisk_def LoadJobFromDisk_def example_queue_with_file_def
        example_queue_def example_job_state_def)
  obtain dep_job where l7: "SafeLoadJobFromDisk ?X ?c ?q 7 True (Some False) = Some dep_job"
    and s7: "CalcStatus dep_job = RUNNING"
    by (simp add: SafeLoadJobFromDisk_def LoadJobFromDisk_def example_queue_with_file_def
        example_queue_def example_job_state_def Restore_def QueuedOpCode_Restore_def
        example_op_state_def example_externals_def CalcStatus_def InitInMemory_def)
  have r: "RUNNING \<notin> JOBS_FINALIZED"
    by (simp add: JOBS_FINALIZED_def)
  from CheckAndRegister_missing_dependency [OF j d s, of 9 ?c ?q Map.empty] id l9
  have 9: "CheckAndRegister ?X (GetJobStatusForDependencies ?X ?c ?q) Map.empty ?j 9 [SUCCESS]
     = (Inl (AttributeError ''NoneType object has no attribute writable''), Map.empty)"
    by simp
  from CheckAndRegister_missing_dependency [OF j d s, of 1 ?c ?q Map.empty] id
  have 1: "\<exists>msg. CheckAndRegister ?X (GetJobStatusForDependencies ?X ?c ?q) Map.empty ?j 1 [SUCCESS]
     = (Inr (DEP_ERROR, msg), Map.empty)"
    by simp
  from CheckAndRegister_missing_dependency [OF j d s, of 7 ?c ?q Map.empty] id l7 s7 r
  have 7: "\<exists>msg. CheckAndRegister ?X (GetJobStatusForDependencies ?X ?c ?q) Map.empty ?j 7 [SUCCESS]
     = (Inr (WAIT, msg), [7 \<mapsto> {1}])"
    by simp
  from j d [of 9] s l9 9 1 7 show ?thesis by simp
qed

section \<open>Properties of the serialized form\<close>

lemma QueuedOpCode_roundtrip:
  assumes "op_state_well_formed X os"
  shows "\<exists>opc. QueuedOpCode_Restore X c os = Inr opc \<and> QueuedOpCode_Serialize X opc = os \<and>
           op_log opc = st_log os"
proof -
  from assms obtain inp where l: "LoadOpCode X (st_input os) = Inr inp"
    and g: "getstate X inp = st_input os"
    by (auto simp: op_state_well_formed_def split: sum.splits)
  from assms obtain a b d p where k: "st_start_timestamp os = Some a" "st_exec_timestamp os = Some b"
    "st_end_timestamp os = Some d" "st_priority os = Some p"
    by (auto simp: op_state_well_formed_def)
  show ?thesis
    using l g k
    by (simp add: QueuedOpCode_Restore_def QueuedOpCode_Serialize_def get_or_None_def)
qed

lemma Restore_loop_roundtrip:
  "list_all (op_state_well_formed X) ss \<Longrightarrow>
   \<exists>ops'. Restore_loop X c ss acc n =
            Inr (acc @ ops',
                 fold (\<lambda>x s. max s x) (concat (map (\<lambda>os. map fst (st_log os)) ss)) n) \<and>
          map (QueuedOpCode_Serialize X) ops' = ss"
proof (induction ss arbitrary: acc n)
  case Nil
  then show ?case by simp
next
  case (Cons os ss)
  then have wf: "op_state_well_formed X os" and rest: "list_all (op_state_well_formed X) ss"
    by simp_all
  from QueuedOpCode_roundtrip [OF wf, of c] obtain opc
    where r: "QueuedOpCode_Restore X c os = Inr opc"
      and s: "QueuedOpCode_Serialize X opc = os" and lg: "op_log opc = st_log os"
    by blast
  let ?n = "fold (\<lambda>log_entry s. max s (fst log_entry)) (op_log opc) n"
  have n: "?n = fold (\<lambda>x s. max s x) (map fst (st_log os)) n"
    by (simp add: lg fold_map comp_def)
  from Cons.IH [OF rest, of "acc @ [opc]" ?n] obtain ops'
    where l: "Restore_loop X c ss (acc @ [opc]) ?n =
            Inr ((acc @ [opc]) @ ops',
                 fold (\<lambda>x s. max s x) (concat (map (\<lambda>os. map fst (st_log os)) ss)) ?n)"
      and m: "map (QueuedOpCode_Serialize X) ops' = ss"
    by blast
  have "Restore_loop X c (os # ss) acc n =
          Inr (acc @ (opc # ops'),
               fold (\<lambda>x s. max s x) (concat (map (\<lambda>os. map fst (st_log os)) (os # ss))) n)"
    using r l n by simp
  moreover have "map (QueuedOpCode_Serialize X) (opc # ops') = os # ss"
    using s m by simp
  ultimately show ?case by (intro exI [of _ "opc # ops'"] conjI)
qed

lemma fold_max_Max:
  fixes n :: int
  shows "fold (\<lambda>x s. max s x) xs n = Max (insert n (set xs))"
proof (induction xs arbitrary: n)
  case Nil
  then show ?case by simp
next
  case (Cons x xs)
  have "Max (insert (max n x) (set xs)) = Max (insert n (insert x (set xs)))"
    by (cases "set xs = {}") (simp_all add: max.assoc)
  with Cons show ?case by simp
qed

lemma Max_insert_0:
  fixes xs :: "int list"
  assumes "\<forall>x \<in> set xs. 0 \<le> x"
  shows "Max (insert 0 (set xs)) = (if xs = [] then 0 else Max (set xs))"
proof (cases xs)
  case Nil
  then show ?thesis by simp
next
  case (Cons y ys)
  then have ne: "set xs \<noteq> {}" by simp
  have "0 \<le> Max (set xs)"
    using assms Cons by (simp add: Max_ge_iff)
  with ne Cons show ?thesis by (simp add: max_def)
qed

text \<open>
  Claim C5. For a well-formed serialized job state \<open>s\<close>, \<^verbatim>\<open>Restore\<close> succeeds and
  \<^verbatim>\<open>Serialize\<close> of the restored job is \<open>s\<close> again on every persistent field (the id,
  each opcode's input, status, result, log, priority and three timestamps, and the
  job's three timestamps): it is \<open>s\<close> without the keys that are not persistent fields.
  The restored job's \<^verbatim>\<open>log_serial\<close> is the greatest serial among the log entries of
  all opcodes, and 0 when there is no log entry, whatever \<open>s\<close> stores under other keys.
\<close>

theorem Serialize_Restore_roundtrip:
  assumes "state_well_formed X s"
  shows "\<exists>job. Restore X c s w arch = Inr job \<and>
           Serialize X job = s\<lparr>js_other := []\<rparr> \<and>
           log_serial job = (if log_serials s = [] then 0 else Max (set (log_serials s))) \<and>
           writable job = w \<and> archived job = arch"
proof -
  from assms have wf: "list_all (op_state_well_formed X) (js_ops s)"
    by (simp add: state_well_formed_def)
  from assms obtain a b d where k: "js_received_timestamp s = Some a"
    "js_start_timestamp s = Some b" "js_end_timestamp s = Some d"
    by (auto simp: state_well_formed_def)
  from Restore_loop_roundtrip [OF wf, of c "[]" 0] obtain ops'
    where l: "Restore_loop X c (js_ops s) [] 0 =
        Inr (ops', fold (\<lambda>x s. max s x) (log_serials s) 0)"
      and m: "map (QueuedOpCode_Serialize X) ops' = js_ops s"
    by (auto simp: log_serials_def)
  have "\<forall>x \<in> set (log_serials s). 0 \<le> x"
    using wf by (auto simp: log_serials_def op_state_well_formed_def list_all_iff)
  then have n: "fold (\<lambda>x s. max s x) (log_serials s) 0
      = (if log_serials s = [] then 0 else Max (set (log_serials s)))"
    by (simp only: fold_max_Max Max_insert_0)
  show ?thesis
    using l m k n
    by (simp add: Restore_def Serialize_def InitInMemory_def get_or_None_def)
qed

theorem Serialize_Restore_roundtrip_witness:
  "state_well_formed example_externals example_job_state \<and>
   (\<exists>job. Restore example_externals ganeti_constants example_job_state True False = Inr job \<and>
      Serialize example_externals job = example_job_state\<lparr>js_other := []\<rparr> \<and>
      log_serial job = 3)"
proof -
  have wf: "state_well_formed example_externals example_job_state"
    by (simp add: state_well_formed_def op_state_well_formed_def example_job_state_def
        example_op_state_def example_externals_def example_opcode_def)
  have ls: "log_serials example_job_state = [1, 2, 3]"
    by (simp add: log_serials_def example_job_state_def example_op_state_def)
  from Serialize_Restore_roundtrip [OF wf, of ganeti_constants True False] ls
  have "\<exists>job. Restore example_externals ganeti_constants example_job_state True False = Inr job \<and>
      Serialize example_externals job = example_job_state\<lparr>js_other := []\<rparr> \<and>
      log_serial job = 3"
    by auto
  with wf show ?thesis by simp
qed

section \<open>Properties of cancellation\<close>

lemma MarkUnfinishedOps_loop_unfinished:
  "list_all (\<lambda>opc. op_status opc \<notin> OPS_FINALIZED) xs \<Longrightarrow>
   MarkUnfinishedOps_loop st res b xs = (None, map (mark_unfinished st res) xs)"
  by (induction xs arbitrary: b) (auto simp: mark_unfinished_def)

lemma MarkUnfinishedOps_loop_in_order:
  "ops_in_order xs \<Longrightarrow>
   MarkUnfinishedOps_loop st res True xs = (None, map (mark_unfinished st res) xs)"
proof (induction xs)
  case Nil
  then show ?case by simp
next
  case (Cons x xs)
  show ?case
  proof (cases "op_status x \<in> OPS_FINALIZED")
    case True
    with Cons.prems have "ops_in_order xs" by (simp add: ops_in_order_def)
    with Cons.IH True show ?thesis by (simp add: mark_unfinished_def)
  next
    case False
    with Cons.prems have "list_all (\<lambda>opc. op_status opc \<notin> OPS_FINALIZED) (x # xs)"
      by (simp add: ops_in_order_def)
    then show ?thesis by (rule MarkUnfinishedOps_loop_unfinished)
  qed
qed

lemma MarkUnfinishedOps_in_order:
  "ops_in_order (ops job) \<Longrightarrow>
   MarkUnfinishedOps st res job = (None, job\<lparr>ops := map (mark_unfinished st res) (ops job)\<rparr>)"
  by (simp add: MarkUnfinishedOps_def MarkUnfinishedOps_loop_in_order)

lemma CalcStatus_loop_first_not_success:
  "find (\<lambda>opc. op_status opc \<noteq> SUCCESS) xs = Some x \<Longrightarrow> stops_scan x \<Longrightarrow>
   CalcStatus_loop xs st b = (op_status x, False)"
  by (induction xs arbitrary: st b) (auto simp: stops_scan_def split: if_splits)













section \<open>Properties of submission\<close>

lemma NewSerialsUnlocked_one:
  "NewSerialsUnlocked q (Suc 0) =
     ([last_serial q + 1], q\<lparr>disk_serial := last_serial q + 1, last_serial := last_serial q + 1\<rparr>)"
  by (simp add: NewSerialsUnlocked_def Let_def upto_rec1)

lemma AddReasons_loop_length: "length (AddReasons_loop X jid n xs) = length xs"
  by (induction xs arbitrary: n) (simp_all add: Let_def)

lemma AddReasons_loop_status:
  "map op_status (AddReasons_loop X jid n xs) = map op_status xs"
  by (induction xs arbitrary: n) (simp_all add: Let_def)

lemma check_submitted_ops_AddReasons:
  "check_submitted_ops X c idx (AddReasons_loop X jid n (map (QueuedOpCode_init c) opcs)) = None
     \<longleftrightarrow> list_all (submit_valid X c) opcs"
  by (induction opcs arbitrary: idx n)
     (auto simp: Let_def submit_valid_def QueuedOpCode_init_def)

lemma check_submitted_ops_GenericError:
  "check_submitted_ops X c idx xs = Some e \<Longrightarrow> \<exists>msg. e = GenericError msg"
  by (induction xs arbitrary: idx) (auto simp: Let_def split: if_splits)

lemma CalcStatus_all_queued:
  assumes "ops job \<noteq> []" and "\<forall>opc \<in> set (ops job). op_status opc = QUEUED"
  shows "CalcStatus job = QUEUED"
proof -
  from assms(2) have n: "find stops_scan (ops job) = None"
    by (auto simp: find_None_iff stops_scan_def)
  from assms(2) have w: "filter waiting_or_running (ops job) = []"
    by (auto simp: filter_empty_conv waiting_or_running_def)
  from assms obtain x where "x \<in> set (ops job)" "op_status x = QUEUED"
    by (cases "ops job") auto
  then have "\<not> (\<forall>opc \<in> set (ops job). op_status opc = SUCCESS)"
    by force
  with n w show ?thesis
    by (simp add: CalcStatus_def CalcStatus_loop_no_stop)
qed

lemma QueuedJob_init_Inr:
  assumes "opcs \<noteq> []"
  shows "\<exists>job. QueuedJob_init X c now jid opcs w = Inr job \<and>
           ops job = AddReasons_loop X jid 0 (map (QueuedOpCode_init c) opcs) \<and>
           job_id job = jid \<and> end_timestamp job = None \<and> writable job = w \<and>
           \<not> archived job \<and> length (ops job) = length opcs \<and>
           map op_status (ops job) = replicate (length opcs) QUEUED"
  using assms
  by (simp add: QueuedJob_init_def InitInMemory_def AddReasons_def Let_def
      AddReasons_loop_length AddReasons_loop_status QueuedOpCode_init_def comp_def map_replicate_const)

lemma SubmitJobUnlocked_accepts:
  assumes "queue_filelock q" and "queue_size q < JOB_QUEUE_SIZE_HARD_LIMIT c"
    and "opcs \<noteq> []" and "list_all (submit_valid X c) opcs"
  shows "\<exists>job. QueuedJob_init X c now jid opcs True = Inr job \<and>
           SubmitJobUnlocked X c now q jid opcs =
             (Inr job, q\<lparr>disk_jobs := (disk_jobs q)(jid \<mapsto> Serialize X job),
                          queue_size := queue_size q + 1,
                          memcache := (memcache q)(jid \<mapsto> job)\<rparr>)"
proof -
  from QueuedJob_init_Inr [OF assms(3), of X c now jid True] obtain job
    where all: "QueuedJob_init X c now jid opcs True = Inr job \<and>
           ops job = AddReasons_loop X jid 0 (map (QueuedOpCode_init c) opcs) \<and>
           job_id job = jid \<and> end_timestamp job = None \<and> writable job = True \<and>
           \<not> archived job \<and> length (ops job) = length opcs \<and>
           map op_status (ops job) = replicate (length opcs) QUEUED" ..
  from all have i: "QueuedJob_init X c now jid opcs True = Inr job"
      and o: "ops job = AddReasons_loop X jid 0 (map (QueuedOpCode_init c) opcs)"
      and f: "job_id job = jid" "end_timestamp job = None" "writable job" "\<not> archived job"
      and l: "length (ops job) = length opcs"
      and s: "map op_status (ops job) = replicate (length opcs) QUEUED"
    by blast+
  from o assms(4) have ch: "check_submitted_ops X c 0 (ops job) = None"
    by (simp add: check_submitted_ops_AddReasons)
  from l assms(3) have ne: "ops job \<noteq> []" by auto
  have "set (map op_status (ops job)) \<subseteq> {QUEUED}"
    unfolding s by (auto simp: set_replicate_conv_if)
  then have "\<forall>opc \<in> set (ops job). op_status opc = QUEUED" by auto
  with ne have "CalcStatus job = QUEUED" by (rule CalcStatus_all_queued)
  then have u: "UpdateJobUnlocked X q job = (None, q\<lparr>disk_jobs := (disk_jobs q)(jid \<mapsto> Serialize X job)\<rparr>)"
    using assms(1) f by (simp add: UpdateJobUnlocked_def JOBS_FINALIZED_def)
  from i ch u assms(1,2) have "SubmitJobUnlocked X c now q jid opcs =
             (Inr job, q\<lparr>disk_jobs := (disk_jobs q)(jid \<mapsto> Serialize X job),
                          queue_size := queue_size q + 1,
                          memcache := (memcache q)(jid \<mapsto> job)\<rparr>)"
    by (simp add: SubmitJobUnlocked_def)
  with i show ?thesis by blast
qed

lemma SubmitJobUnlocked_rejects:
  assumes "queue_filelock q" and "queue_size q < JOB_QUEUE_SIZE_HARD_LIMIT c"
    and "opcs = [] \<or> \<not> list_all (submit_valid X c) opcs"
  shows "\<exists>msg. SubmitJobUnlocked X c now q jid opcs = (Inl (GenericError msg), q)"
proof (cases "opcs = []")
  case True
  with assms(1,2) show ?thesis
    by (simp add: SubmitJobUnlocked_def QueuedJob_init_def)
next
  case False
  with assms(3) have bad: "\<not> list_all (submit_valid X c) opcs" by simp
  from QueuedJob_init_Inr [OF False, of X c now jid True] obtain job
    where i: "QueuedJob_init X c now jid opcs True = Inr job"
      and o: "ops job = AddReasons_loop X jid 0 (map (QueuedOpCode_init c) opcs)"
    by blast
  from o bad have "check_submitted_ops X c 0 (ops job) \<noteq> None"
    by (simp add: check_submitted_ops_AddReasons)
  then obtain e where e: "check_submitted_ops X c 0 (ops job) = Some e" by auto
  from check_submitted_ops_GenericError [OF e] obtain msg where "e = GenericError msg" ..
  with e i assms(1,2) show ?thesis
    by (simp add: SubmitJobUnlocked_def)
qed

text \<open>
  Claim C6, as the code has it. On an open queue \<^verbatim>\<open>SubmitJob\<close> raises the first of
  these that applies, and nothing else: JobQueueDrainError when the drain flag is set;
  JobQueueError when the queue no longer accepts jobs; JobQueueFull when the queue size
  has reached the hard limit; GenericError when the opcode list is empty, or some opcode
  has a priority outside the valid submit priorities or dependencies that fail the type
  check. In the first two cases the queue is unchanged, in the last two only a serial
  has been used. When none applies it returns the id just allocated, one more than the
  last serial, the queue size has grown by one, and the job is cached, written and
  handed to the worker pool.
\<close>

theorem SubmitJob_outcomes:
  assumes "queue_filelock q"
  shows
   "(drained q \<longrightarrow>
       (\<exists>msg. SubmitJob X c now q opcs = (Inl (JobQueueDrainError msg), q))) \<and>
    (\<not> drained q \<and> \<not> accepting_jobs q \<longrightarrow>
       (\<exists>msg. SubmitJob X c now q opcs = (Inl (JobQueueError msg), q))) \<and>
    (\<not> drained q \<and> accepting_jobs q \<and> queue_size q \<ge> JOB_QUEUE_SIZE_HARD_LIMIT c \<longrightarrow>
       SubmitJob X c now q opcs =
         (Inl JobQueueFull,
          q\<lparr>disk_serial := last_serial q + 1, last_serial := last_serial q + 1\<rparr>)) \<and>
    (\<not> drained q \<and> accepting_jobs q \<and> queue_size q < JOB_QUEUE_SIZE_HARD_LIMIT c \<and>
     (opcs = [] \<or> \<not> list_all (submit_valid X c) opcs) \<longrightarrow>
       (\<exists>msg. SubmitJob X c now q opcs =
          (Inl (GenericError msg),
           q\<lparr>disk_serial := last_serial q + 1, last_serial := last_serial q + 1\<rparr>))) \<and>
    (\<not> drained q \<and> accepting_jobs q \<and> queue_size q < JOB_QUEUE_SIZE_HARD_LIMIT c \<and>
     opcs \<noteq> [] \<and> list_all (submit_valid X c) opcs \<longrightarrow>
       (\<exists>job q'. SubmitJob X c now q opcs = (Inr (last_serial q + 1), q') \<and>
          queue_size q' = queue_size q + 1 \<and>
          last_serial q' = last_serial q + 1 \<and>
          memcache q' (last_serial q + 1) = Some job \<and>
          disk_jobs q' (last_serial q + 1) = Some (Serialize X job) \<and>
          wpool q' = wpool q @ [\<lparr>task_args = last_serial q + 1,
                                  task_priority = CalcPriority c job,
                                  task_id = last_serial q + 1\<rparr>]))"
proof -
  let ?jid = "last_serial q + 1"
  let ?q1 = "q\<lparr>disk_serial := ?jid, last_serial := ?jid\<rparr>"
  have l1: "queue_filelock ?q1" using assms by simp
  have full: "SubmitJob X c now q opcs = (Inl JobQueueFull, ?q1)"
    if "\<not> drained q \<and> accepting_jobs q \<and> queue_size q \<ge> JOB_QUEUE_SIZE_HARD_LIMIT c"
    using that assms
    by (simp add: SubmitJob_def NewSerialsUnlocked_one SubmitJobUnlocked_def)
  have bad: "\<exists>msg. SubmitJob X c now q opcs = (Inl (GenericError msg), ?q1)"
    if a: "\<not> drained q \<and> accepting_jobs q \<and> queue_size q < JOB_QUEUE_SIZE_HARD_LIMIT c \<and>
     (opcs = [] \<or> \<not> list_all (submit_valid X c) opcs)"
  proof -
    from a have "queue_size ?q1 < JOB_QUEUE_SIZE_HARD_LIMIT c"
      and "opcs = [] \<or> \<not> list_all (submit_valid X c) opcs" by simp_all
    from SubmitJobUnlocked_rejects [OF l1 this, of now ?jid] obtain msg
      where "SubmitJobUnlocked X c now ?q1 ?jid opcs = (Inl (GenericError msg), ?q1)" ..
    with a assms show ?thesis
      by (simp add: SubmitJob_def NewSerialsUnlocked_one)
  qed
  have good: "\<exists>job q'. SubmitJob X c now q opcs = (Inr ?jid, q') \<and>
          queue_size q' = queue_size q + 1 \<and> last_serial q' = ?jid \<and>
          memcache q' ?jid = Some job \<and> disk_jobs q' ?jid = Some (Serialize X job) \<and>
          wpool q' = wpool q @ [\<lparr>task_args = ?jid, task_priority = CalcPriority c job,
                                  task_id = ?jid\<rparr>]"
    if a: "\<not> drained q \<and> accepting_jobs q \<and> queue_size q < JOB_QUEUE_SIZE_HARD_LIMIT c \<and>
     opcs \<noteq> [] \<and> list_all (submit_valid X c) opcs"
  proof -
    from a have s: "queue_size ?q1 < JOB_QUEUE_SIZE_HARD_LIMIT c"
      and n: "opcs \<noteq> []" and v: "list_all (submit_valid X c) opcs" by simp_all
    from SubmitJobUnlocked_accepts [OF l1 s n v, of now ?jid] obtain job
      where i: "QueuedJob_init X c now ?jid opcs True = Inr job"
        and u: "SubmitJobUnlocked X c now ?q1 ?jid opcs =
             (Inr job, ?q1\<lparr>disk_jobs := (disk_jobs ?q1)(?jid \<mapsto> Serialize X job),
                          queue_size := queue_size ?q1 + 1,
                          memcache := (memcache ?q1)(?jid \<mapsto> job)\<rparr>)"
      by blast
    from QueuedJob_init_Inr [OF n, of X c now ?jid True] i have id: "job_id job = ?jid"
      by force
    let ?q' = "EnqueueJobsUnlocked c
        (?q1\<lparr>disk_jobs := (disk_jobs ?q1)(?jid \<mapsto> Serialize X job),
             queue_size := queue_size ?q1 + 1,
             memcache := (memcache ?q1)(?jid \<mapsto> job)\<rparr>) [job]"
    have "SubmitJob X c now q opcs = (Inr ?jid, ?q')"
      using a assms u by (simp add: SubmitJob_def NewSerialsUnlocked_one)
    moreover have "queue_size ?q' = queue_size q + 1" "last_serial ?q' = ?jid"
      "memcache ?q' ?jid = Some job" "disk_jobs ?q' ?jid = Some (Serialize X job)"
      by (simp_all add: EnqueueJobsUnlocked_def)
    moreover have "wpool ?q' = wpool q @ [\<lparr>task_args = ?jid, task_priority = CalcPriority c job,
                                  task_id = ?jid\<rparr>]"
      using id by (simp add: EnqueueJobsUnlocked_def AddManyTasks_def)
    ultimately show ?thesis by blast
  qed
  have dr: "drained q \<longrightarrow> (\<exists>msg. SubmitJob X c now q opcs = (Inl (JobQueueDrainError msg), q))"
    using assms by (simp add: SubmitJob_def)
  have sh: "\<not> drained q \<and> \<not> accepting_jobs q \<longrightarrow>
       (\<exists>msg. SubmitJob X c now q opcs = (Inl (JobQueueError msg), q))"
    using assms by (simp add: SubmitJob_def)
  from dr sh full bad good show ?thesis by blast
qed

theorem SubmitJob_outcomes_witness:
  "queue_filelock example_queue \<and>
   (\<exists>msg. SubmitJob example_externals ganeti_constants (300, 0) (example_queue\<lparr>drained := True\<rparr>)
      [example_opcode] = (Inl (JobQueueDrainError msg), example_queue\<lparr>drained := True\<rparr>)) \<and>
   (\<exists>msg. SubmitJob example_externals ganeti_constants (300, 0)
      (example_queue\<lparr>accepting_jobs := False\<rparr>) [example_opcode]
        = (Inl (JobQueueError msg), example_queue\<lparr>accepting_jobs := False\<rparr>)) \<and>
   fst (SubmitJob example_externals ganeti_constants (300, 0) (example_queue\<lparr>queue_size := 5000\<rparr>)
      [example_opcode]) = Inl JobQueueFull \<and>
   \<not> list_all (submit_valid example_externals ganeti_constants) [example_opcode\<lparr>oc_priority := Some 7\<rparr>] \<and>
   (\<exists>msg. fst (SubmitJob example_externals ganeti_constants (300, 0) example_queue
      [example_opcode\<lparr>oc_priority := Some 7\<rparr>]) = Inl (GenericError msg)) \<and>
   list_all (submit_valid example_externals ganeti_constants) [example_opcode] \<and>
   (\<exists>job q'. SubmitJob example_externals ganeti_constants (300, 0) example_queue [example_opcode]
        = (Inr 1, q') \<and>
      queue_size q' = 1 \<and> memcache q' 1 = Some job \<and>
      disk_jobs q' 1 = Some (Serialize example_externals job))"
proof -
  let ?X = example_externals and ?c = ganeti_constants
  have lock: "\<And>f. queue_filelock (example_queue\<lparr>drained := f\<rparr>)"
    "\<And>f. queue_filelock (example_queue\<lparr>accepting_jobs := f\<rparr>)"
    "\<And>n. queue_filelock (example_queue\<lparr>queue_size := n\<rparr>)" "queue_filelock example_queue"
    by (simp_all add: example_queue_def)
  have state: "\<not> drained example_queue" "accepting_jobs example_queue"
    "queue_size example_queue = 0" "last_serial example_queue = 0"
    by (simp_all add: example_queue_def)
  have lim: "JOB_QUEUE_SIZE_HARD_LIMIT ?c = 5000"
    by (simp add: ganeti_constants_def)
  have bad: "\<not> list_all (submit_valid ?X ?c) [example_opcode\<lparr>oc_priority := Some 7\<rparr>]"
    by (simp add: submit_valid_def ganeti_constants_def)
  have ok: "list_all (submit_valid ?X ?c) [example_opcode]"
    by (simp add: submit_valid_def ganeti_constants_def example_opcode_def example_externals_def)
  from SubmitJob_outcomes [OF lock(1), of True ?X ?c "(300, 0)" "[example_opcode]"]
  have 1: "\<exists>msg. SubmitJob ?X ?c (300, 0) (example_queue\<lparr>drained := True\<rparr>) [example_opcode]
      = (Inl (JobQueueDrainError msg), example_queue\<lparr>drained := True\<rparr>)"
    by simp
  from SubmitJob_outcomes [OF lock(2), of False ?X ?c "(300, 0)" "[example_opcode]"] state
  have 2: "\<exists>msg. SubmitJob ?X ?c (300, 0) (example_queue\<lparr>accepting_jobs := False\<rparr>) [example_opcode]
      = (Inl (JobQueueError msg), example_queue\<lparr>accepting_jobs := False\<rparr>)"
    by simp
  from SubmitJob_outcomes [OF lock(3), of 5000 ?X ?c "(300, 0)" "[example_opcode]"] state lim
  have 3: "fst (SubmitJob ?X ?c (300, 0) (example_queue\<lparr>queue_size := 5000\<rparr>) [example_opcode])
      = Inl JobQueueFull"
    by simp
  from SubmitJob_outcomes [OF lock(4), of ?X ?c "(300, 0)" "[example_opcode\<lparr>oc_priority := Some 7\<rparr>]"]
    state lim bad
  have 4: "\<exists>msg. fst (SubmitJob ?X ?c (300, 0) example_queue
      [example_opcode\<lparr>oc_priority := Some 7\<rparr>]) = Inl (GenericError msg)"
    by auto
  from SubmitJob_outcomes [OF lock(4), of ?X ?c "(300, 0)" "[example_opcode]"] state lim ok
  have 5: "\<exists>job q'. SubmitJob ?X ?c (300, 0) example_queue [example_opcode] = (Inr 1, q') \<and>
      queue_size q' = 1 \<and> memcache q' 1 = Some job \<and> disk_jobs q' 1 = Some (Serialize ?X job)"
    by auto
  from lock(4) 1 2 3 bad 4 ok 5 show ?thesis by blast
qed

text \<open>
  As stated, the claim fails on an empty opcode list: none of the four named
  preconditions holds and still \<^verbatim>\<open>SubmitJob\<close> raises GenericError, from the job's
  constructor. It also fails on a queue that has been shut down, where the assertion of
  \<^verbatim>\<open>_RequireOpenQueue\<close> raises.
\<close>

theorem SubmitJob_empty_counterexample:
  "\<not> drained example_queue \<and> accepting_jobs example_queue \<and>
   queue_size example_queue < JOB_QUEUE_SIZE_HARD_LIMIT ganeti_constants \<and>
   list_all (submit_valid example_externals ganeti_constants) [] \<and>
   SubmitJob example_externals ganeti_constants (300, 0) example_queue []
     = (Inl (GenericError (Fmt ''A job needs at least one opcode'' [])),
        example_queue\<lparr>disk_serial := 1, last_serial := 1\<rparr>) \<and>
   SubmitJob example_externals ganeti_constants (300, 0)
       (example_queue\<lparr>queue_filelock := False\<rparr>) [example_opcode]
     = (Inl (AssertionError ''Queue should be open''), example_queue\<lparr>queue_filelock := False\<rparr>)"
  by (simp add: SubmitJob_def NewSerialsUnlocked_def SubmitJobUnlocked_def QueuedJob_init_def
      example_queue_def ganeti_constants_def upto_rec1)

text \<open>
  Claim C10. The constructor of a job raises GenericError on an empty opcode list,
  before it builds anything, and a job it returns has as many opcodes as it was given,
  at least one. \<^verbatim>\<open>SubmitJob\<close> with no opcodes fails whatever the state of the queue, and
  leaves the job files, the archive, the cache, the queue size and the worker pool as
  they were. A job that \<^verbatim>\<open>SubmitJob\<close> accepts is cached and written with at least one
  opcode.
\<close>

theorem empty_job_rejected:
  "QueuedJob_init X c now jid [] w = Inl (GenericError (Fmt ''A job needs at least one opcode'' [])) \<and>
   (\<forall>job. QueuedJob_init X c now jid opcs w = Inr job \<longrightarrow>
      ops job \<noteq> [] \<and> length (ops job) = length opcs) \<and>
   (\<exists>e. fst (SubmitJob X c now q []) = Inl e) \<and>
   disk_jobs (snd (SubmitJob X c now q [])) = disk_jobs q \<and>
   disk_archive (snd (SubmitJob X c now q [])) = disk_archive q \<and>
   memcache (snd (SubmitJob X c now q [])) = memcache q \<and>
   queue_size (snd (SubmitJob X c now q [])) = queue_size q \<and>
   wpool (snd (SubmitJob X c now q [])) = wpool q \<and>
   (\<forall>new_id q'. SubmitJob X c now q opcs = (Inr new_id, q') \<longrightarrow>
      (\<exists>job. memcache q' new_id = Some job \<and> ops job \<noteq> [] \<and>
         disk_jobs q' new_id = Some (Serialize X job) \<and> js_ops (Serialize X job) \<noteq> []))"
proof (intro conjI allI impI)
  show "QueuedJob_init X c now jid [] w = Inl (GenericError (Fmt ''A job needs at least one opcode'' []))"
    by (simp add: QueuedJob_init_def)
next
  fix job
  assume a: "QueuedJob_init X c now jid opcs w = Inr job"
  then have n: "opcs \<noteq> []"
    by (auto simp: QueuedJob_init_def)
  from QueuedJob_init_Inr [OF n, of X c now jid w] a have l: "length (ops job) = length opcs"
    by force
  with n show "ops job \<noteq> []" by auto
  from l show "length (ops job) = length opcs" .
next
  have r: "SubmitJob X c now q [] =
     (if \<not> queue_filelock q then (Inl (AssertionError ''Queue should be open''), q)
      else if drained q then
        (Inl (JobQueueDrainError (Fmt ''Job queue is drained, refusing job'' [])), q)
      else if \<not> accepting_jobs q then
        (Inl (JobQueueError (Fmt ''Job queue is shutting down, refusing job'' [])), q)
      else if queue_size q \<ge> JOB_QUEUE_SIZE_HARD_LIMIT c then
        (Inl JobQueueFull, q\<lparr>disk_serial := last_serial q + 1, last_serial := last_serial q + 1\<rparr>)
      else (Inl (GenericError (Fmt ''A job needs at least one opcode'' [])),
            q\<lparr>disk_serial := last_serial q + 1, last_serial := last_serial q + 1\<rparr>))"
    by (simp add: SubmitJob_def NewSerialsUnlocked_one SubmitJobUnlocked_def QueuedJob_init_def)
  show "\<exists>e. fst (SubmitJob X c now q []) = Inl e" by (simp add: r)
  show "disk_jobs (snd (SubmitJob X c now q [])) = disk_jobs q" by (simp add: r)
  show "disk_archive (snd (SubmitJob X c now q [])) = disk_archive q" by (simp add: r)
  show "memcache (snd (SubmitJob X c now q [])) = memcache q" by (simp add: r)
  show "queue_size (snd (SubmitJob X c now q [])) = queue_size q" by (simp add: r)
  show "wpool (snd (SubmitJob X c now q [])) = wpool q" by (simp add: r)
next
  fix new_id q'
  assume a: "SubmitJob X c now q opcs = (Inr new_id, q')"
  let ?q1 = "q\<lparr>disk_serial := last_serial q + 1, last_serial := last_serial q + 1\<rparr>"
  from a have f: "queue_filelock q" "new_id = last_serial q + 1"
    by (auto simp: SubmitJob_def NewSerialsUnlocked_one split: if_splits prod.splits sum.splits)
  from a f obtain job q2 where u: "SubmitJobUnlocked X c now ?q1 new_id opcs = (Inr job, q2)"
    and q': "q' = EnqueueJobsUnlocked c q2 [job]"
    by (auto simp: SubmitJob_def NewSerialsUnlocked_one split: if_splits prod.splits sum.splits)
  from u obtain q3 where i: "QueuedJob_init X c now new_id opcs True = Inr job"
    and up: "UpdateJobUnlocked X ?q1 job = (None, q3)"
    and q2: "q2 = q3\<lparr>queue_size := queue_size q3 + 1, memcache := (memcache q3)(new_id \<mapsto> job)\<rparr>"
    by (auto simp: SubmitJobUnlocked_def split: if_splits prod.splits sum.splits option.splits)
  from i have n: "opcs \<noteq> []" by (auto simp: QueuedJob_init_def)
  from QueuedJob_init_Inr [OF n, of X c now new_id True] i
  have l: "length (ops job) = length opcs" and id: "job_id job = new_id" by force+
  from up id have d: "disk_jobs q3 new_id = Some (Serialize X job)"
    by (auto simp: UpdateJobUnlocked_def Let_def split: if_splits)
  from l n have ne: "ops job \<noteq> []" by auto
  have "memcache q' new_id = Some job" "disk_jobs q' new_id = Some (Serialize X job)"
    using q' q2 d by (simp_all add: EnqueueJobsUnlocked_def)
  moreover have "js_ops (Serialize X job) \<noteq> []"
    using ne by (simp add: Serialize_def)
  ultimately show "\<exists>job. memcache q' new_id = Some job \<and> ops job \<noteq> [] \<and>
         disk_jobs q' new_id = Some (Serialize X job) \<and> js_ops (Serialize X job) \<noteq> []"
    using ne by blast
qed

theorem empty_job_rejected_witness:
  "QueuedJob_init example_externals ganeti_constants (300, 0) 1 [example_opcode, example_opcode] True
     \<noteq> Inl (GenericError (Fmt ''A job needs at least one opcode'' [])) \<and>
   (\<exists>job. QueuedJob_init example_externals ganeti_constants (300, 0) 1
      [example_opcode, example_opcode] True = Inr job \<and> length (ops job) = 2) \<and>
   (\<exists>e. fst (SubmitJob example_externals ganeti_constants (300, 0) example_queue []) = Inl e) \<and>
   queue_size (snd (SubmitJob example_externals ganeti_constants (300, 0) example_queue [])) = 0 \<and>
   (\<exists>q' job. SubmitJob example_externals ganeti_constants (300, 0) example_queue [example_opcode]
      = (Inr 1, q') \<and> memcache q' 1 = Some job \<and> ops job \<noteq> [])"
proof -
  let ?X = example_externals and ?c = ganeti_constants
  let ?two = "[example_opcode, example_opcode]"
  obtain job where j: "QueuedJob_init ?X ?c (300, 0) 1 ?two True = Inr job"
    by (simp add: QueuedJob_init_def InitInMemory_def AddReasons_def)
  obtain q' where s: "SubmitJob ?X ?c (300, 0) example_queue [example_opcode] = (Inr 1, q')"
    by (simp add: SubmitJob_def NewSerialsUnlocked_def SubmitJobUnlocked_def QueuedJob_init_def
        InitInMemory_def AddReasons_def UpdateJobUnlocked_def CalcStatus_def QueuedOpCode_init_def
        JOBS_FINALIZED_def example_queue_def ganeti_constants_def example_opcode_def
        example_externals_def upto_rec1 Let_def)
  note t = empty_job_rejected [of ?X ?c "(300, 0)" 1 True]
  from t [of ?two example_queue] j have 1: "length (ops job) = 2" by simp
  from t [of "[example_opcode]" example_queue] s
  have 2: "\<exists>job. memcache q' 1 = Some job \<and> ops job \<noteq> []" by blast
  from t [of "[example_opcode]" example_queue]
  have 3: "\<exists>e. fst (SubmitJob ?X ?c (300, 0) example_queue []) = Inl e"
    and 4: "queue_size (snd (SubmitJob ?X ?c (300, 0) example_queue [])) = 0"
    by (simp_all add: example_queue_def)
  from j 1 2 3 4 s show ?thesis by auto
qed

section \<open>Properties of the job processor\<close>

lemma processing_in_order:
  assumes "i < length xs"
    and "list_all (\<lambda>x. op_status x \<in> OPS_FINALIZED) (take i xs)"
    and "list_all (\<lambda>x. op_status x \<notin> OPS_FINALIZED) (drop (Suc i) xs)"
  shows "ops_in_order xs"
proof -
  let ?fin = "\<lambda>x. op_status x \<in> OPS_FINALIZED"
  let ?B = "drop (Suc i) xs"
  have xs: "xs = take i xs @ xs ! i # ?B"
    using assms(1) by (rule id_take_nth_drop)
  have B: "dropWhile ?fin ?B = ?B"
    using assms(3) by (cases ?B) simp_all
  have "dropWhile ?fin xs = dropWhile ?fin (xs ! i # ?B)"
    using assms(2) by (subst xs) (simp add: list_all_iff dropWhile_append2)
  also have "list_all (\<lambda>x. op_status x \<notin> OPS_FINALIZED) (dropWhile ?fin (xs ! i # ?B))"
    using assms(3) B by simp
  finally show ?thesis by (simp add: ops_in_order_def)
qed

lemma processing_ops_in_order: "processing i job \<Longrightarrow> ops_in_order (ops job)"
  by (rule processing_in_order [of i])
     (auto simp: processing_def OPS_FINALIZED_def list_all_iff)

lemma CalcStatus_loop_QUEUED:
  "CalcStatus_loop xs st b = (QUEUED, b') \<Longrightarrow>
   st = QUEUED \<and> (\<forall>x \<in> set xs. op_status x \<in> {SUCCESS, QUEUED})"
proof (induction xs arbitrary: st b)
  case Nil
  then show ?case by simp
next
  case (Cons x xs)
  show ?case
  proof (cases "op_status x")
    case QUEUED
    with Cons.prems have "CalcStatus_loop xs st False = (QUEUED, b')" by simp
    from Cons.IH [OF this] QUEUED show ?thesis by simp
  next
    case WAITING
    with Cons.prems have "CalcStatus_loop xs WAITING False = (QUEUED, b')" by simp
    from Cons.IH [OF this] show ?thesis by simp
  next
    case RUNNING
    with Cons.prems have "CalcStatus_loop xs RUNNING False = (QUEUED, b')" by simp
    from Cons.IH [OF this] show ?thesis by simp
  next
    case SUCCESS
    with Cons.prems have "CalcStatus_loop xs st b = (QUEUED, b')" by simp
    from Cons.IH [OF this] SUCCESS show ?thesis by simp
  next
    case CANCELING
    with Cons.prems show ?thesis by simp
  next
    case CANCELED
    with Cons.prems show ?thesis by simp
  next
    case ERROR
    with Cons.prems show ?thesis by simp
  qed
qed

lemma CalcStatus_QUEUED_ops:
  assumes "CalcStatus job = QUEUED" and "x \<in> set (ops job)"
  shows "op_status x \<in> {SUCCESS, QUEUED}"
proof -
  obtain r b where l: "CalcStatus_loop (ops job) QUEUED True = (r, b)"
    by (cases "CalcStatus_loop (ops job) QUEUED True")
  with assms(1) have "r = QUEUED"
    by (auto simp: CalcStatus_def split: if_splits)
  with l CalcStatus_loop_QUEUED assms(2) show ?thesis by blast
qed

lemma map_mark_unfinished_processing:
  assumes "processing i job" and "st \<in> {QUEUED, CANCELING}"
  shows "processing i (job\<lparr>ops := map (mark_unfinished st res) (ops job)\<rparr>)"
proof -
  have "\<And>xs. list_all (\<lambda>x. op_status x = SUCCESS) xs \<Longrightarrow>
      list_all (\<lambda>x. op_status x = SUCCESS) (map (mark_unfinished st res) xs)"
    by (auto simp: list_all_iff mark_unfinished_def OPS_FINALIZED_def)
  moreover have "\<And>xs. list_all (\<lambda>x. op_status x \<in> {QUEUED, CANCELING}) xs \<Longrightarrow>
      list_all (\<lambda>x. op_status x \<in> {QUEUED, CANCELING}) (map (mark_unfinished st res) xs)"
    using assms(2) by (auto simp: list_all_iff mark_unfinished_def OPS_FINALIZED_def)
  ultimately show ?thesis
    using assms(1) by (simp add: processing_def take_map drop_map)
qed

text \<open>
  While an opcode is being dealt with, its status being WAITING, RUNNING or CANCELING,
  a call of \<^verbatim>\<open>Cancel\<close> returns and keeps the job in that state.
\<close>

lemma Cancel_processing:
  assumes "processing i job" and "op_status (ops job ! i) \<in> {WAITING, RUNNING, CANCELING}"
  shows "\<exists>r job'. Cancel now job = (Inr r, job') \<and> processing i job' \<and>
           op_status (ops job' ! i) \<in> {WAITING, RUNNING, CANCELING}"
proof -
  from assms(1) have i: "i < length (ops job)" by (simp add: processing_def)
  then have "ops job ! i \<in> set (ops job)" by simp
  with assms(2) CalcStatus_QUEUED_ops [of job "ops job ! i"] have nq: "CalcStatus job \<noteq> QUEUED"
    by auto
  show ?thesis
  proof (cases "CalcStatus job = WAITING")
    case True
    let ?job' = "job\<lparr>ops := map (mark_unfinished CANCELING JNull) (ops job)\<rparr>"
    from processing_ops_in_order [OF assms(1)]
    have "Cancel now job = (Inr (True, Fmt ''Job %s will be canceled'' [AInt (job_id job)]), ?job')"
      using True by (simp add: Cancel_def MarkUnfinishedOps_in_order)
    moreover have "processing i ?job'"
      using assms(1) by (intro map_mark_unfinished_processing) simp_all
    moreover have "op_status (ops ?job' ! i) \<in> {WAITING, RUNNING, CANCELING}"
      using i assms(2) by (auto simp: mark_unfinished_def)
    ultimately show ?thesis by blast
  next
    case False
    with nq assms show ?thesis by (auto simp: Cancel_def)
  qed
qed

lemma set_ctx_op_processing:
  "processing (ctx_index opctx) job \<Longrightarrow> processing (ctx_index opctx) (set_ctx_op opctx opc job)"
  by (simp add: processing_def set_ctx_op_def)

lemma ctx_op_set_ctx_op:
  "ctx_index opctx < length (ops job) \<Longrightarrow> ctx_op opctx (set_ctx_op opctx opc job) = opc"
  by (simp add: ctx_op_def set_ctx_op_def)

lemma UpdateJobUnlocked_filelock:
  "queue_filelock (snd (UpdateJobUnlocked X q job)) = queue_filelock q"
  by (simp add: UpdateJobUnlocked_def Let_def)

lemma run_event_executing:
  assumes "executing opctx st"
  shows "executing opctx (snd (run_event X opctx ev st))"
proof -
  obtain q job where st: "st = (q, job)" by (cases st)
  from assms st have l: "queue_filelock q" and p: "processing (ctx_index opctx) job"
    and s: "op_status (ctx_op opctx job) \<in> {WAITING, RUNNING, CANCELING}"
    by (simp_all add: executing_def)
  from p have i: "ctx_index opctx < length (ops job)" by (simp add: processing_def)
  show ?thesis
  proof (cases ev)
    case (NotifyStart now)
    let ?job' = "set_ctx_op opctx ((ctx_op opctx job)\<lparr>op_status := RUNNING,
        op_exec_timestamp := Some now\<rparr>) job"
    have "executing opctx (snd (UpdateJobUnlocked X q ?job'), ?job')"
      using l p i by (simp add: executing_def UpdateJobUnlocked_filelock set_ctx_op_processing
          ctx_op_set_ctx_op)
    then show ?thesis
      using NotifyStart st assms
      by (auto simp: Let_def split: option.splits prod.splits)
  next
    case (Feedback ts lt lm)
    let ?job1 = "job\<lparr>log_serial := log_serial job + 1\<rparr>"
    let ?job' = "set_ctx_op opctx ((ctx_op opctx ?job1)\<lparr>op_log := op_log (ctx_op opctx ?job1)
        @ [(log_serial ?job1, ts, lt, lm)]\<rparr>) ?job1"
    have p1: "processing (ctx_index opctx) ?job1"
      using p by (simp add: processing_def)
    have "executing opctx (snd (UpdateJobUnlocked X q ?job'), ?job')"
      using l p1 i s by (simp add: executing_def UpdateJobUnlocked_filelock set_ctx_op_processing
          ctx_op_set_ctx_op) (simp add: ctx_op_def)
    then show ?thesis
      using Feedback st
      by (auto simp: Let_def split: option.splits prod.splits)
  next
    case CurrentPriority
    with st assms show ?thesis by simp
  next
    case (OtherCancelJob now)
    from Cancel_processing [OF p, of now] s obtain r job'
      where c: "Cancel now job = (Inr r, job')" and p': "processing (ctx_index opctx) job'"
        and s': "op_status (ops job' ! ctx_index opctx) \<in> {WAITING, RUNNING, CANCELING}"
      by (auto simp: ctx_op_def)
    have "executing opctx (snd (UpdateJobUnlocked X q job'), job')" "executing opctx (q, job')"
      using l p' s' by (simp_all add: executing_def UpdateJobUnlocked_filelock ctx_op_def)
    with c OtherCancelJob st show ?thesis
      by (cases r) simp
  next
    case OtherPrepareShutdown
    with st assms show ?thesis by (simp add: executing_def)
  qed
qed

lemma run_events_executing:
  "executing opctx st \<Longrightarrow> executing opctx (snd (run_events X opctx evs st))"
proof (induction evs arbitrary: st)
  case Nil
  then show ?case by simp
next
  case (Cons ev evs)
  from run_event_executing [OF Cons.prems, of X ev]
  have e: "executing opctx (snd (run_event X opctx ev st))" .
  obtain r st' where re: "run_event X opctx ev st = (r, st')"
    by (cases "run_event X opctx ev st")
  with e have e': "executing opctx st'" by simp
  show ?case
  proof (cases r)
    case None
    with re Cons.IH [OF e'] show ?thesis by simp
  next
    case (Some a)
    with re e' show ?thesis by simp
  qed
qed

lemma GetEncodedError_EncodeOpError: "GetEncodedError (EncodeOpError err)"
  by (cases err) (simp_all add: EncodeException_def)

lemma GetNextLockTimeout_index:
  "GetNextLockTimeout opctx = (t, opctx') \<Longrightarrow> ctx_index opctx' = ctx_index opctx"
  by (auto simp: GetNextLockTimeout_def split: prod.splits)

lemma ExecOpCodeUnlocked_executing:
  assumes "queue_filelock q" and "processing (ctx_index opctx) job"
    and "ExecOpCodeUnlocked X P opctx (q, job) = (r, opctx', q', job')"
  shows "ctx_index opctx' = ctx_index opctx \<and> queue_filelock q' \<and>
         processing (ctx_index opctx) job' \<and>
         (\<forall>st res. r = Inr (st, res) \<longrightarrow> (st = ERROR \<longrightarrow> GetEncodedError res))"
proof (cases "op_status (ctx_op opctx job) = WAITING")
  case False
  with assms show ?thesis
    by (auto simp: ExecOpCodeUnlocked_def split: if_splits)
next
  case True
  obtain t opctx1 where g: "GetNextLockTimeout opctx = (t, opctx1)"
    by (cases "GetNextLockTimeout opctx")
  from GetNextLockTimeout_index [OF g] have i: "ctx_index opctx1 = ctx_index opctx" .
  obtain events ending where o: "opexec_fn P (op_input (ctx_op opctx job)) t = (events, ending)"
    by (cases "opexec_fn P (op_input (ctx_op opctx job)) t")
  obtain raised q1 job1 where re: "run_events X opctx1 events (q, job) = (raised, q1, job1)"
    by (cases "run_events X opctx1 events (q, job)")
  have "executing opctx1 (q, job)"
    using assms(1,2) True i by (simp add: executing_def ctx_op_def)
  from run_events_executing [OF this, of X events] re
  have e: "queue_filelock q1" "processing (ctx_index opctx) job1"
    by (simp_all add: executing_def i)
  from assms(3) True g o re have "opctx' = opctx1 \<and> q' = q1 \<and> job' = job1 \<and>
      (\<forall>st res. r = Inr (st, res) \<longrightarrow> (st = ERROR \<longrightarrow> GetEncodedError res))"
    by (auto simp: ExecOpCodeUnlocked_def Let_def GetEncodedError_EncodeOpError
        split: if_splits option.splits exec_end.splits exec_raise.splits)
  with e i show ?thesis by simp
qed

lemma call_exec_dealt_with:
  assumes "dealt_with opctx (q, job)"
    and "call_exec X P waitjob opctx (q, job) = (None, opctx', q', job')"
  shows "ctx_index opctx' = ctx_index opctx \<and> dealt_with opctx (q', job') \<and>
         (waitjob \<longrightarrow> job' = job)"
proof (cases "waitjob \<or> op_status (ctx_op opctx job) \<in> {CANCELING, ERROR}")
  case True
  with assms show ?thesis by (auto simp: call_exec_def)
next
  case False
  from assms(1) have l: "queue_filelock q" and p: "processing (ctx_index opctx) job"
    by (simp_all add: dealt_with_def)
  from assms(2) False obtain st res opctx1 q1 job1
    where x: "ExecOpCodeUnlocked X P opctx (q, job) = (Inr (st, res), opctx1, q1, job1)"
      and r: "opctx' = opctx1" "q' = q1"
        "job' = set_ctx_op opctx1 ((ctx_op opctx1 job1)\<lparr>op_status := st, op_result := res\<rparr>) job1"
    by (auto simp: call_exec_def split: if_splits prod.splits sum.splits)
  from ExecOpCodeUnlocked_executing [OF l p x]
  have i: "ctx_index opctx1 = ctx_index opctx" and l1: "queue_filelock q1"
    and p1: "processing (ctx_index opctx) job1" and e: "st = ERROR \<longrightarrow> GetEncodedError res"
    by simp_all
  from p1 have n: "ctx_index opctx < length (ops job1)" by (simp add: processing_def)
  have "processing (ctx_index opctx) job'"
    using p1 i r(3) set_ctx_op_processing [of opctx1 job1] by simp
  moreover have "ctx_op opctx job' = (ctx_op opctx1 job1)\<lparr>op_status := st, op_result := res\<rparr>"
    using n i r(3) by (simp add: ctx_op_def set_ctx_op_def)
  ultimately show ?thesis
    using i l1 e r(1,2) False by (simp add: dealt_with_def)
qed

lemma call_op_end_dealt_with:
  assumes "dealt_with opctx (q, job)" and "call_op_end P opctx job = (None, job')"
  shows "dealt_with opctx (q, job') \<and>
         op_status (ctx_op opctx job') = op_status (ctx_op opctx job)"
proof -
  from assms(1) have p: "processing (ctx_index opctx) job"
    by (simp add: dealt_with_def)
  then have n: "ctx_index opctx < length (ops job)" by (simp add: processing_def)
  let ?ended = "set_ctx_op opctx ((ctx_op opctx job)\<lparr>op_end_timestamp := Some (now_op_end P)\<rparr>) job"
  from assms(2) have "job' = job \<or> job' = ?ended"
    by (auto simp: call_op_end_def Let_def split: if_splits)
  moreover have "dealt_with opctx (q, ?ended)"
    using assms(1) n set_ctx_op_processing [OF p]
    by (simp add: dealt_with_def ctx_op_set_ctx_op)
  moreover have "op_status (ctx_op opctx ?ended) = op_status (ctx_op opctx job)"
    using n by (simp add: ctx_op_set_ctx_op)
  ultimately show ?thesis using assms(1) by auto
qed

lemma MarkWaitlock_processing:
  assumes "processing (ctx_index opctx) job" and "MarkWaitlock now job opctx = (Inr u, job1)"
  shows "processing (ctx_index opctx) job1 \<and> op_status (ctx_op opctx job1) = WAITING"
proof -
  from assms(1) have n: "ctx_index opctx < length (ops job)" by (simp add: processing_def)
  from assms(2) obtain opc3 st where j: "ops job1 = (ops job)[ctx_index opctx := opc3]"
    and s: "op_status opc3 = WAITING"
    and f: "writable job1 = writable job" "archived job1 = archived job"
    by (auto simp: MarkWaitlock_def Let_def set_ctx_op_def split: if_splits)
  from assms(1) j f have "processing (ctx_index opctx) job1"
    by (simp add: processing_def)
  moreover from n j s have "op_status (ctx_op opctx job1) = WAITING"
    by (simp add: ctx_op_def)
  ultimately show ?thesis by simp
qed

lemma CheckDependencies_loop_dealt_with:
  assumes "processing (ctx_index opctx) job" and "op_status (ctx_op opctx job) = WAITING"
    and "CheckDependencies_loop X g now opctx deps ws job = (Inr w, deps', ws', job')"
  shows "processing (ctx_index opctx) job' \<and>
         (op_status (ctx_op opctx job') = ERROR \<longrightarrow> GetEncodedError (op_result (ctx_op opctx job'))) \<and>
         (w \<longrightarrow> op_status (ctx_op opctx job') = WAITING)"
  using assms
proof (induction deps arbitrary: ws)
  case Nil
  then show ?case by simp
next
  case (Cons d deps)
  obtain dep_job_id dep_status where d: "d = (dep_job_id, dep_status)" by (cases d)
  from Cons.prems(1) have n: "ctx_index opctx < length (ops job)" by (simp add: processing_def)
  obtain res ws1 where car: "CheckAndRegister X g ws job dep_job_id dep_status = (res, ws1)"
    by (cases "CheckAndRegister X g ws job dep_job_id dep_status")
  show ?case
  proof (cases res)
    case (Inl e)
    with Cons.prems(3) d car show ?thesis by simp
  next
    case (Inr dr)
    obtain depresult depmsg where dr: "dr = (depresult, depmsg)" by (cases dr)
    let ?failed = "set_ctx_op opctx ((ctx_op opctx job)\<lparr>op_status := ERROR,
        op_result := EncodeOpError (GenericErrorExc ''OpExecError'' depmsg)\<rparr>) job"
    have failed: "processing (ctx_index opctx) ?failed \<and>
        (op_status (ctx_op opctx ?failed) = ERROR \<longrightarrow>
           GetEncodedError (op_result (ctx_op opctx ?failed)))"
      using Cons.prems(1) n
      by (simp add: set_ctx_op_processing ctx_op_set_ctx_op EncodeException_def)
    show ?thesis
    proof (cases depresult)
      case WAIT
      with Cons.prems d car Inr dr show ?thesis by auto
    next
      case DEP_ERROR
      with Cons.prems(3) d car Inr dr failed show ?thesis by auto
    next
      case WRONGSTATUS
      with Cons.prems(3) d car Inr dr failed show ?thesis by auto
    next
      case CONTINUE
      with Cons.prems(3) d car Inr dr
      have "CheckDependencies_loop X g now opctx deps ws1 job = (Inr w, deps', ws', job')"
        by simp
      from Cons.IH [OF Cons.prems(1,2) this] show ?thesis .
    next
      case CANCEL
      from Cancel_processing [OF Cons.prems(1), of now] Cons.prems(2) obtain r job1
        where c: "Cancel now job = (Inr r, job1)" and p1: "processing (ctx_index opctx) job1"
          and s1: "op_status (ops job1 ! ctx_index opctx) \<in> {WAITING, RUNNING, CANCELING}"
        by (auto simp: ctx_op_def)
      from Cons.prems(3) d car Inr dr CANCEL c have "job' = job1" and "\<not> w"
        by (auto split: if_splits)
      with p1 s1 show ?thesis by (auto simp: ctx_op_def)
    qed
  qed
qed

lemma CheckDependencies_dealt_with:
  assumes "queue_filelock q" and "processing (ctx_index opctx) job"
    and "op_status (ctx_op opctx job) = WAITING"
    and "CheckDependencies X c now q job opctx = (Inr w, q', job', opctx')"
  shows "ctx_index opctx' = ctx_index opctx \<and> dealt_with opctx (q', job') \<and>
         (w \<longrightarrow> op_status (ctx_op opctx job') = WAITING)"
proof (cases "ctx_jobdeps opctx")
  case None
  with assms show ?thesis by (auto simp: CheckDependencies_def dealt_with_def)
next
  case (Some deps)
  with assms(4) obtain deps' ws' where l: "CheckDependencies_loop X (GetJobStatusForDependencies X c q)
      now opctx deps (waiters q) job = (Inr w, deps', ws', job')"
    and r: "q' = q\<lparr>waiters := ws'\<rparr>" "opctx' = opctx\<lparr>ctx_jobdeps := Some deps'\<rparr>"
    by (auto simp: CheckDependencies_def split: prod.splits)
  from CheckDependencies_loop_dealt_with [OF assms(2,3) l] assms(1) r show ?thesis
    by (simp add: dealt_with_def ctx_op_def)
qed

lemma call_wait_dealt_with:
  assumes "queue_filelock q" and "processing (ctx_index opctx) job"
    and "call_wait X c P opctx (q, job) = (Inr waitjob, opctx2, q2, job2)"
  shows "ctx_index opctx2 = ctx_index opctx \<and> dealt_with opctx (q2, job2) \<and>
         (waitjob \<longrightarrow> op_status (ctx_op opctx job2) = WAITING)"
proof -
  from assms(3) obtain u job1 where m: "MarkWaitlock (now_waitlock P) job opctx = (Inr u, job1)"
    by (auto simp: call_wait_def split: prod.splits sum.splits)
  from MarkWaitlock_processing [OF assms(2) m]
  have p1: "processing (ctx_index opctx) job1" and s1: "op_status (ctx_op opctx job1) = WAITING"
    by simp_all
  let ?q1 = "if u then snd (UpdateJobUnlocked X q job1) else q"
  have l1: "queue_filelock ?q1"
    using assms(1) by (simp add: UpdateJobUnlocked_filelock)
  from assms(3) m have "CheckDependencies X c (now_cancel P) ?q1 job1 opctx
      = (Inr waitjob, q2, job2, opctx2)"
    by (auto simp: call_wait_def split: prod.splits sum.splits option.splits if_splits)
  from CheckDependencies_dealt_with [OF l1 p1 s1 this] show ?thesis .
qed

lemma FindNextOpcode_loop_found:
  "FindNextOpcode_loop factory xs idx = (Inr opctx, pos') \<Longrightarrow>
   \<exists>k. k < length xs \<and> ctx_index opctx = idx + k \<and>
       list_all (\<lambda>x. op_status x \<in> OPS_FINALIZED) (take k xs)"
proof (induction xs arbitrary: idx)
  case Nil
  then show ?case by simp
next
  case (Cons x xs)
  show ?case
  proof (cases "op_status x \<in> OPS_FINALIZED")
    case False
    with Cons.prems have "ctx_index opctx = idx"
      by (auto simp: OpExecContext_init_def split: if_splits)
    then show ?thesis by (intro exI [of _ 0]) simp
  next
    case True
    then have "op_status x \<noteq> RUNNING" by (auto simp: OPS_FINALIZED_def)
    with True Cons.prems have "FindNextOpcode_loop factory xs (idx + 1) = (Inr opctx, pos')"
      by simp
    from Cons.IH [OF this] obtain k where "k < length xs" "ctx_index opctx = idx + 1 + k"
      "list_all (\<lambda>x. op_status x \<in> OPS_FINALIZED) (take k xs)"
      by blast
    with True show ?thesis by (intro exI [of _ "Suc k"]) simp
  qed
qed

lemma finalized_prefix_stops:
  "list_all (\<lambda>x. op_status x \<in> OPS_FINALIZED) (take i xs) \<Longrightarrow>
   \<not> list_all (\<lambda>x. op_status x = SUCCESS) (take i xs) \<Longrightarrow>
   fst (CalcStatus_loop xs st b) \<in> {ERROR, CANCELED} \<and> \<not> snd (CalcStatus_loop xs st b)"
proof (induction xs arbitrary: i st b)
  case Nil
  then show ?case by simp
next
  case (Cons x xs)
  from Cons.prems(2) obtain j where i: "i = Suc j" by (cases i) auto
  show ?case
  proof (cases "op_status x = SUCCESS")
    case True
    with Cons.prems i Cons.IH [of j st b] show ?thesis by simp
  next
    case False
    with Cons.prems(1) i have "op_status x \<in> {ERROR, CANCELED}"
      by (auto simp: OPS_FINALIZED_def)
    then show ?thesis by auto
  qed
qed

lemma unfinished_job_prefix_success:
  assumes "CalcStatus job \<notin> JOBS_FINALIZED"
    and "list_all (\<lambda>x. op_status x \<in> OPS_FINALIZED) (take i (ops job))"
  shows "list_all (\<lambda>x. op_status x = SUCCESS) (take i (ops job))"
proof (rule ccontr)
  assume "\<not> list_all (\<lambda>x. op_status x = SUCCESS) (take i (ops job))"
  from finalized_prefix_stops [OF assms(2) this, of QUEUED True] assms(1) show False
    by (auto simp: CalcStatus_def JOBS_FINALIZED_def split: prod.splits)
qed

lemma call_choose_processing:
  assumes "job_cursor_ok job" and "\<not> archived job"
    and "call_choose c P job = (Inr (Inr opctx), job1)"
  shows "processing (ctx_index opctx) job1 \<and> ops job1 = ops job \<and>
         op_status (ctx_op opctx job1) \<in> {QUEUED, WAITING, CANCELING}"
proof -
  from assms(3) have w: "writable job" and nf: "CalcStatus job \<notin> JOBS_FINALIZED"
    by (auto simp: call_choose_def split: if_splits)
  obtain r j where pick: "(case cur_opctx job of
                 Some opctx \<Rightarrow> (Inr opctx, job\<lparr>cur_opctx := None\<rparr>)
               | None \<Rightarrow> FindNextOpcode (timeout_strategy_factory P) job) = (r, j)"
    by (cases "case cur_opctx job of
                 Some opctx \<Rightarrow> (Inr opctx, job\<lparr>cur_opctx := None\<rparr>)
               | None \<Rightarrow> FindNextOpcode (timeout_strategy_factory P) job")
  from assms(3) w nf pick have r: "r = Inr opctx" and j: "j = job1"
    and later: "list_all (\<lambda>i. op_status i \<in> {QUEUED, CANCELING})
        (drop (Suc (ctx_index opctx)) (ops job1))"
    and st: "op_status (ctx_op opctx job1) \<in> {QUEUED, WAITING, CANCELING}"
    by (auto simp: call_choose_def Let_def split: if_splits sum.splits)
  have same: "ops job1 = ops job \<and> writable job1 = writable job \<and> archived job1 = archived job"
    using pick j by (auto simp: FindNextOpcode_def Let_def split: option.splits prod.splits)
  have "ctx_index opctx < length (ops job) \<and>
      list_all (\<lambda>x. op_status x = SUCCESS) (take (ctx_index opctx) (ops job))"
  proof (cases "cur_opctx job")
    case (Some ctx)
    with pick r have "ctx = opctx" by simp
    with Some assms(1) show ?thesis by (simp add: job_cursor_ok_def)
  next
    case None
    let ?pos = "case ops_iter job of None \<Rightarrow> 0 | Some p \<Rightarrow> p"
    from None assms(1) have pre: "list_all (\<lambda>x. op_status x = SUCCESS) (take ?pos (ops job))"
      by (simp add: job_cursor_ok_def)
    from None pick r obtain pos' where
      "FindNextOpcode_loop (timeout_strategy_factory P) (drop ?pos (ops job)) ?pos = (Inr opctx, pos')"
      by (auto simp: FindNextOpcode_def Let_def split: prod.splits)
    from FindNextOpcode_loop_found [OF this] obtain k
      where k: "k < length (drop ?pos (ops job))" and i: "ctx_index opctx = ?pos + k"
        and fin: "list_all (\<lambda>x. op_status x \<in> OPS_FINALIZED) (take k (drop ?pos (ops job)))"
      by blast
    from pre have "list_all (\<lambda>x. op_status x \<in> OPS_FINALIZED) (take ?pos (ops job))"
      by (auto simp: list_all_iff OPS_FINALIZED_def)
    with fin have "list_all (\<lambda>x. op_status x \<in> OPS_FINALIZED) (take (?pos + k) (ops job))"
      by (simp add: take_add)
    from unfinished_job_prefix_success [OF nf this] i k show ?thesis by simp
  qed
  with same later st w assms(2) show ?thesis
    by (simp add: processing_def)
qed

lemma dealt_with_index:
  "ctx_index opctx' = ctx_index opctx \<Longrightarrow> dealt_with opctx st \<Longrightarrow> dealt_with opctx' st"
  by (simp add: dealt_with_def ctx_op_def)

lemma call_opcode_dealt_with:
  assumes "queue_filelock q" and "\<not> archived job" and "job_cursor_ok job"
    and "call_opcode X c P (q, job) = (Inr (Inr (waitjob, opctx)), q1, job1)"
  shows "dealt_with opctx (q1, job1) \<and> (waitjob \<longrightarrow> op_status (ctx_op opctx job1) = WAITING)"
proof -
  obtain r0 job0 where ch0: "call_choose c P job = (r0, job0)"
    by (cases "call_choose c P job")
  from assms(4) ch0 obtain opctx0 where r0: "r0 = Inr (Inr opctx0)"
    by (cases r0; cases "projr r0") (auto simp: call_opcode_def)
  note ch = ch0 [unfolded r0]
  from call_choose_processing [OF assms(3,2) ch]
  have p0: "processing (ctx_index opctx0) job0" by simp
  show ?thesis
  proof (cases "op_status (ctx_op opctx0 job0) = CANCELING")
    case True
    with assms(4) ch have "opctx = opctx0" "q1 = q" "job1 = job0" "\<not> waitjob"
      by (simp_all add: call_opcode_def)
    with True p0 assms(1) show ?thesis by (simp add: dealt_with_def)
  next
    case False
    obtain rw opctx2 q2 job2 where wa0: "call_wait X c P opctx0 (q, job0) = (rw, opctx2, q2, job2)"
      by (cases "call_wait X c P opctx0 (q, job0)")
    from assms(4) ch False wa0 obtain wj where rw: "rw = Inr wj"
      by (cases rw) (auto simp: call_opcode_def)
    obtain re opctx3 q3 job3 where ex0: "call_exec X P wj opctx2 (q2, job2) = (re, opctx3, q3, job3)"
      by (cases "call_exec X P wj opctx2 (q2, job2)")
    from assms(4) ch False wa0 rw ex0 have re: "re = None"
      by (cases re) (auto simp: call_opcode_def)
    obtain rn job4 where en0: "call_op_end P opctx3 job3 = (rn, job4)"
      by (cases "call_op_end P opctx3 job3")
    from assms(4) ch False wa0 rw ex0 re en0
    have fin: "rn = None \<and> wj = waitjob \<and> opctx3 = opctx \<and> q3 = q1 \<and> job4 = job1"
      by (cases rn) (auto simp: call_opcode_def)
    from wa0 rw fin have wa: "call_wait X c P opctx0 (q, job0) = (Inr waitjob, opctx2, q2, job2)"
      by simp
    from ex0 re fin have ex: "call_exec X P waitjob opctx2 (q2, job2) = (None, opctx, q1, job3)"
      by simp
    from en0 fin have en: "call_op_end P opctx job3 = (None, job1)"
      by simp
    from call_wait_dealt_with [OF assms(1) p0 wa]
    have i2: "ctx_index opctx2 = ctx_index opctx0" and d2: "dealt_with opctx0 (q2, job2)"
      and w2: "waitjob \<longrightarrow> op_status (ctx_op opctx0 job2) = WAITING"
      by simp_all
    from i2 d2 have "dealt_with opctx2 (q2, job2)" by (rule dealt_with_index)
    from call_exec_dealt_with [OF this ex]
    have i3: "ctx_index opctx = ctx_index opctx2" and d3: "dealt_with opctx2 (q1, job3)"
      and w3: "waitjob \<longrightarrow> job3 = job2"
      by simp_all
    from i3 d3 have "dealt_with opctx (q1, job3)" by (rule dealt_with_index)
    from call_op_end_dealt_with [OF this en]
    have d4: "dealt_with opctx (q1, job1)"
      and s4: "op_status (ctx_op opctx job1) = op_status (ctx_op opctx job3)"
      by simp_all
    from w2 w3 s4 i2 i3 have "waitjob \<longrightarrow> op_status (ctx_op opctx job1) = WAITING"
      by (auto simp: ctx_op_def)
    with d4 show ?thesis by simp
  qed
qed

lemma find_first_not_success_nth:
  "i < length xs \<Longrightarrow> list_all (\<lambda>x. op_status x = SUCCESS) (take i xs) \<Longrightarrow>
   op_status (xs ! i) \<noteq> SUCCESS \<Longrightarrow>
   find (\<lambda>opc. op_status opc \<noteq> SUCCESS) xs = Some (xs ! i)"
proof (induction xs arbitrary: i)
  case Nil
  then show ?case by simp
next
  case (Cons x xs)
  then show ?case by (cases i) auto
qed

text \<open>
  The branch of \<^verbatim>\<open>__call__\<close> for an opcode that has failed: no assertion fails, every
  opcode that is not finalized is marked, the job is finalized and written, and the
  result is FINISHED.
\<close>

lemma call_finish_failed:
  assumes "dealt_with opctx (q, job)" and "op_status (ctx_op opctx job) = ERROR"
    and "\<not> waitjob"
  shows "call_finish X c P opcount waitjob opctx (q, job) =
     (Inr FINISHED,
      q\<lparr>disk_jobs := (disk_jobs q)
           (job_id job \<mapsto> Serialize X (Finalize (now_finalize P)
              (job\<lparr>cur_opctx := None,
                   ops := map (mark_unfinished ERROR
                     (EncodeOpError (GenericErrorExc ''OpExecError''
                        (Fmt ''Preceding opcode failed'' [])))) (ops job)\<rparr>)))\<rparr>,
      Finalize (now_finalize P)
        (job\<lparr>cur_opctx := None,
             ops := map (mark_unfinished ERROR
               (EncodeOpError (GenericErrorExc ''OpExecError''
                  (Fmt ''Preceding opcode failed'' [])))) (ops job)\<rparr>))"
proof -
  let ?i = "ctx_index opctx"
  let ?payload = "EncodeOpError (GenericErrorExc ''OpExecError'' (Fmt ''Preceding opcode failed'' []))"
  let ?marked = "map (mark_unfinished ERROR ?payload) (ops job)"
  let ?job1 = "job\<lparr>cur_opctx := None\<rparr>"
  let ?job2 = "job\<lparr>cur_opctx := None, ops := ?marked\<rparr>"
  let ?job3 = "Finalize (now_finalize P) ?job2"
  from assms(1) have l: "queue_filelock q" and p: "processing ?i job"
    and enc: "GetEncodedError (op_result (ops job ! ?i))"
    using assms(2) by (simp_all add: dealt_with_def ctx_op_def)
  from p have n: "?i < length (ops job)"
    and before: "list_all (\<lambda>x. op_status x = SUCCESS) (take ?i (ops job))"
    and after: "list_all (\<lambda>x. op_status x \<in> {QUEUED, CANCELING}) (drop (Suc ?i) (ops job))"
    and w: "writable job" and a: "\<not> archived job"
    by (simp_all add: processing_def)
  from assms(2) have st: "op_status (ops job ! ?i) = ERROR" by (simp add: ctx_op_def)
  have order: "ops_in_order (ops ?job1)"
    using processing_ops_in_order [OF p] by simp
  have m: "MarkUnfinishedOps ERROR ?payload ?job1 = (None, ?job2)"
    using MarkUnfinishedOps_in_order [OF order, of ERROR ?payload] by simp
  have here: "mark_unfinished ERROR ?payload (ops job ! ?i) = ops job ! ?i"
    using st by (simp add: mark_unfinished_def OPS_FINALIZED_def)
  have "list_all (\<lambda>x. op_status x = ERROR \<and> GetEncodedError (op_result x))
      (map (mark_unfinished ERROR ?payload) (drop (Suc ?i) (ops job)))"
    using after
    by (auto simp: list_all_iff mark_unfinished_def OPS_FINALIZED_def EncodeException_def)
  then have failed: "list_all (\<lambda>x. op_status x = ERROR \<and> GetEncodedError (op_result x))
      (drop ?i ?marked)"
    using n here st enc
    by (simp add: drop_map Cons_nth_drop_Suc [symmetric])
  have "list_all (\<lambda>x. op_status x = SUCCESS) (take ?i ?marked)"
    using before by (auto simp: take_map list_all_iff mark_unfinished_def OPS_FINALIZED_def)
  moreover have "?marked ! ?i = ops job ! ?i"
    using n here by simp
  ultimately have "find (\<lambda>opc. op_status opc \<noteq> SUCCESS) ?marked = Some (ops job ! ?i)"
    using n st find_first_not_success_nth [of ?i ?marked] by simp
  moreover have "stops_scan (ops job ! ?i)"
    using st by (simp add: stops_scan_def)
  ultimately have "CalcStatus_loop ?marked QUEUED True = (ERROR, False)"
    using CalcStatus_loop_first_not_success [of ?marked "ops job ! ?i" QUEUED True] st by simp
  then have cs: "CalcStatus ?job3 = ERROR"
    by (simp add: CalcStatus_def Finalize_def)
  have u: "UpdateJobUnlocked X q ?job3
      = (None, q\<lparr>disk_jobs := (disk_jobs q)(job_id job \<mapsto> Serialize X ?job3)\<rparr>)"
    using cs l w a by (simp add: UpdateJobUnlocked_def JOBS_FINALIZED_def) (simp add: Finalize_def)
  have c: "ctx_op opctx job = ops job ! ?i" by (simp add: ctx_op_def)
  show ?thesis
    unfolding call_finish_def Let_def prod.case c
    using assms(3) before enc m failed u st
    by (simp del: EncodeOpError.simps)
qed

text \<open>
  Claim C7. Take a job of an open queue, not archived, in the state the processor leaves
  a job in between two calls. Whenever a call of the processor has dealt with the
  current opcode and finds its status to be ERROR, the call fails no assertion and
  returns FINISHED; every later opcode, none of which is finalized yet, has the status
  ERROR and the encoded error "Preceding opcode failed" as its result and is otherwise
  unchanged; every opcode that was finalized, the failed one among them, is unchanged;
  the job's end timestamp is set; and the job is written to disk.
\<close>

theorem processor_propagates_error:
  assumes "queue_filelock q" and "\<not> archived job" and "job_cursor_ok job"
    and "call_opcode X c P (q, job) = (Inr (Inr (waitjob, opctx)), q1, job1)"
    and "op_status (ctx_op opctx job1) = ERROR"
  shows "\<exists>q2 job2.
      JobProcessor_call X c P (q, job) = (Inr FINISHED, q2, job2) \<and>
      length (ops job2) = length (ops job1) \<and>
      (\<forall>k < length (ops job1).
         (ctx_index opctx < k \<longrightarrow>
            op_status (ops job1 ! k) \<notin> OPS_FINALIZED \<and>
            ops job2 ! k = (ops job1 ! k)\<lparr>op_status := ERROR,
              op_result := EncodeOpError (GenericErrorExc ''OpExecError''
                (Fmt ''Preceding opcode failed'' []))\<rparr>) \<and>
         (op_status (ops job1 ! k) \<in> OPS_FINALIZED \<longrightarrow> ops job2 ! k = ops job1 ! k)) \<and>
      end_timestamp job2 = Some (now_finalize P) \<and>
      disk_jobs q2 (job_id job2) = Some (Serialize X job2)"
proof -
  let ?payload = "EncodeOpError (GenericErrorExc ''OpExecError'' (Fmt ''Preceding opcode failed'' []))"
  let ?job2 = "Finalize (now_finalize P)
      (job1\<lparr>cur_opctx := None, ops := map (mark_unfinished ERROR ?payload) (ops job1)\<rparr>)"
  let ?q2 = "q1\<lparr>disk_jobs := (disk_jobs q1)(job_id job1 \<mapsto> Serialize X ?job2)\<rparr>"
  from call_opcode_dealt_with [OF assms(1-4)] assms(5)
  have d: "dealt_with opctx (q1, job1)" and nw: "\<not> waitjob"
    by auto
  from d have p: "processing (ctx_index opctx) job1" by (simp add: dealt_with_def)
  from call_finish_failed [OF d assms(5) nw, of X c P "length (ops job)"] assms(4)
  have "call_body X c P (q, job) = (Inr FINISHED, ?q2, ?job2)"
    by (simp add: call_body_def)
  moreover have "writable ?job2"
    using p by (simp add: processing_def Finalize_def)
  ultimately have r: "JobProcessor_call X c P (q, job) = (Inr FINISHED, ?q2, ?job2)"
    by (simp add: JobProcessor_call_def)
  have later: "op_status (ops job1 ! k) \<notin> OPS_FINALIZED"
    if "k < length (ops job1)" "ctx_index opctx < k" for k
  proof -
    from that obtain m where k: "k = Suc (ctx_index opctx) + m"
      by (metis Suc_leI le_Suc_ex)
    with that have "ops job1 ! k \<in> set (drop (Suc (ctx_index opctx)) (ops job1))"
      by (auto simp: in_set_conv_nth intro!: exI [of _ m])
    with p show ?thesis
      by (auto simp: processing_def list_all_iff OPS_FINALIZED_def)
  qed
  have "\<forall>k < length (ops job1).
         (ctx_index opctx < k \<longrightarrow>
            op_status (ops job1 ! k) \<notin> OPS_FINALIZED \<and>
            ops ?job2 ! k = (ops job1 ! k)\<lparr>op_status := ERROR, op_result := ?payload\<rparr>) \<and>
         (op_status (ops job1 ! k) \<in> OPS_FINALIZED \<longrightarrow> ops ?job2 ! k = ops job1 ! k)"
    using later by (simp add: Finalize_def mark_unfinished_def del: EncodeOpError.simps)
  moreover have "length (ops ?job2) = length (ops job1)"
    "end_timestamp ?job2 = Some (now_finalize P)"
    "disk_jobs ?q2 (job_id ?job2) = Some (Serialize X ?job2)"
    by (simp_all add: Finalize_def)
  ultimately show ?thesis
    using r by blast
qed

theorem processor_propagates_error_witness:
  "queue_filelock example_queue \<and>
   \<not> archived (example_job [SUCCESS, QUEUED, QUEUED]) \<and>
   job_cursor_ok (example_job [SUCCESS, QUEUED, QUEUED]) \<and>
   fst (call_opcode example_externals ganeti_constants example_processor
          (example_queue, example_job [SUCCESS, QUEUED, QUEUED]))
     = Inr (Inr (False, \<lparr>ctx_index = 1, ctx_jobdeps = None,
                          ctx_timeout_strategy_factory = [1, 2, 4],
                          ctx_timeout_strategy = \<lparr>ts_fn = [2, 4], ts_next = None\<rparr>\<rparr>)) \<and>
   map op_status (ops (snd (snd (call_opcode example_externals ganeti_constants example_processor
          (example_queue, example_job [SUCCESS, QUEUED, QUEUED])))))
     = [SUCCESS, ERROR, QUEUED] \<and>
   (\<exists>q2 job2.
      JobProcessor_call example_externals ganeti_constants example_processor
        (example_queue, example_job [SUCCESS, QUEUED, QUEUED]) = (Inr FINISHED, q2, job2) \<and>
      map op_status (ops job2) = [SUCCESS, ERROR, ERROR] \<and>
      map op_result (ops job2)
        = [JNull, EncodeOpError (OtherExc ''boom''),
           EncodeOpError (GenericErrorExc ''OpExecError'' (Fmt ''Preceding opcode failed'' []))] \<and>
      end_timestamp job2 = Some (140, 0) \<and>
      disk_jobs q2 (job_id job2) = Some (Serialize example_externals job2))"
proof -
  let ?X = example_externals and ?c = ganeti_constants and ?P = example_processor
  let ?J = "example_job [SUCCESS, QUEUED, QUEUED]"
  let ?O = "\<lparr>ctx_index = 1, ctx_jobdeps = None, ctx_timeout_strategy_factory = [1, 2, 4],
             ctx_timeout_strategy = \<lparr>ts_fn = [2, 4], ts_next = None\<rparr>\<rparr>"
  let ?payload = "EncodeOpError (GenericErrorExc ''OpExecError'' (Fmt ''Preceding opcode failed'' []))"
  have lock: "queue_filelock example_queue"
    by (simp add: example_queue_def)
  have ar: "\<not> archived ?J"
    by (simp add: example_job_def)
  have cur: "job_cursor_ok ?J"
    by (simp add: job_cursor_ok_def example_job_def)
  have ev: "(case call_opcode ?X ?c ?P (example_queue, ?J) of (r, q1, job1) \<Rightarrow>
      r = Inr (Inr (False, ?O)) \<and>
      map op_status (ops job1) = [SUCCESS, ERROR, QUEUED] \<and>
      map op_result (ops job1) = [JNull, EncodeOpError (OtherExc ''boom''), JNull])"
    by code_simp
  obtain r q1 job1 where co0: "call_opcode ?X ?c ?P (example_queue, ?J) = (r, q1, job1)"
    by (rule prod_cases3)
  from ev have r: "r = Inr (Inr (False, ?O))"
    and st: "map op_status (ops job1) = [SUCCESS, ERROR, QUEUED]"
    and res: "map op_result (ops job1) = [JNull, EncodeOpError (OtherExc ''boom''), JNull]"
    unfolding co0 prod.case by (rule conjunct1, rule conjunct2 [THEN conjunct1], rule conjunct2 [THEN conjunct2])
  from co0 r have co: "call_opcode ?X ?c ?P (example_queue, ?J) = (Inr (Inr (False, ?O)), q1, job1)"
    by (simp only:)
  have "length (map op_status (ops job1)) = 3"
    unfolding st by simp
  then have len: "length (ops job1) = 3"
    by simp
  have nth_st: "op_status (ops job1 ! k) = [SUCCESS, ERROR, QUEUED] ! k" if "k < 3" for k
  proof -
    from that len have "map op_status (ops job1) ! k = op_status (ops job1 ! k)"
      by (simp only: nth_map)
    then show ?thesis
      unfolding st by (rule sym)
  qed
  have nth_res: "op_result (ops job1 ! k) = [JNull, EncodeOpError (OtherExc ''boom''), JNull] ! k"
    if "k < 3" for k
  proof -
    from that len have "map op_result (ops job1) ! k = op_result (ops job1 ! k)"
      by (simp only: nth_map)
    then show ?thesis
      unfolding res by (rule sym)
  qed
  from nth_st [of 1] have err: "op_status (ctx_op ?O job1) = ERROR"
    by (simp add: ctx_op_def)
  from processor_propagates_error [OF lock ar cur co err]
  obtain q2 job2 where big: "JobProcessor_call ?X ?c ?P (example_queue, ?J) = (Inr FINISHED, q2, job2) \<and>
      length (ops job2) = length (ops job1) \<and>
      (\<forall>k < length (ops job1).
         (ctx_index ?O < k \<longrightarrow>
            op_status (ops job1 ! k) \<notin> OPS_FINALIZED \<and>
            ops job2 ! k = (ops job1 ! k)\<lparr>op_status := ERROR, op_result := ?payload\<rparr>) \<and>
         (op_status (ops job1 ! k) \<in> OPS_FINALIZED \<longrightarrow> ops job2 ! k = ops job1 ! k)) \<and>
      end_timestamp job2 = Some (now_finalize ?P) \<and>
      disk_jobs q2 (job_id job2) = Some (Serialize ?X job2)"
    by (elim exE) (erule that)
  note call = big [THEN conjunct1]
    and len2 = big [THEN conjunct2, THEN conjunct1]
    and each = big [THEN conjunct2, THEN conjunct2, THEN conjunct1]
    and e = big [THEN conjunct2, THEN conjunct2, THEN conjunct2, THEN conjunct1]
    and d = big [THEN conjunct2, THEN conjunct2, THEN conjunct2, THEN conjunct2]
  have lt: "(0::nat) < 3" "(1::nat) < 3" "(2::nat) < 3"
    by simp_all
  from each [unfolded len, rule_format, OF lt(1)] nth_st [of 0] have k0: "ops job2 ! 0 = ops job1 ! 0"
    by (simp add: OPS_FINALIZED_def)
  from each [unfolded len, rule_format, OF lt(2)] nth_st [of 1] have k1: "ops job2 ! 1 = ops job1 ! 1"
    by (simp add: OPS_FINALIZED_def)
  from each [unfolded len, rule_format, OF lt(3)]
  have k2: "ops job2 ! 2 = (ops job1 ! 2)\<lparr>op_status := ERROR, op_result := ?payload\<rparr>"
    by (simp del: EncodeOpError.simps)
  from len2 have "length (ops job2) = 3"
    unfolding len .
  then have "\<exists>a b d'. ops job2 = [a, b, d']"
    by (auto simp: numeral_3_eq_3 length_Suc_conv)
  then obtain a b d' where l: "ops job2 = [a, b, d']"
    by (elim exE)
  from k0 k1 k2 have abd: "a = ops job1 ! 0" "b = ops job1 ! 1"
    "d' = (ops job1 ! 2)\<lparr>op_status := ERROR, op_result := ?payload\<rparr>"
    unfolding l by (simp_all del: EncodeOpError.simps)
  have s2: "map op_status (ops job2) = [SUCCESS, ERROR, ERROR]"
    unfolding l abd using nth_st [of 0] nth_st [of 1] by simp
  have r2: "map op_result (ops job2) = [JNull, EncodeOpError (OtherExc ''boom''), ?payload]"
    unfolding l abd using nth_res [of 0] nth_res [of 1] by (simp del: EncodeOpError.simps)
  from e have e2: "end_timestamp job2 = Some (140, 0)"
    by (simp add: example_processor_def)
  have ex: "\<exists>q2 job2.
      JobProcessor_call ?X ?c ?P (example_queue, ?J) = (Inr FINISHED, q2, job2) \<and>
      map op_status (ops job2) = [SUCCESS, ERROR, ERROR] \<and>
      map op_result (ops job2) = [JNull, EncodeOpError (OtherExc ''boom''), ?payload] \<and>
      end_timestamp job2 = Some (140, 0) \<and>
      disk_jobs q2 (job_id job2) = Some (Serialize ?X job2)"
    by (intro exI conjI) (rule call, rule s2, rule r2, rule e2, rule d)
  from st have st': "map op_status (ops (snd (snd (call_opcode ?X ?c ?P (example_queue, ?J)))))
     = [SUCCESS, ERROR, QUEUED]"
    by (simp only: co snd_conv)
  from co have r: "fst (call_opcode ?X ?c ?P (example_queue, ?J)) = Inr (Inr (False, ?O))"
    by (simp only: fst_conv)
  show ?thesis
    by (intro conjI) (rule lock, rule ar, rule cur, rule r, rule st', rule ex)
qed

end
